theory Spec2Isabelle
  imports Complex_Main "HOL-Library.Word" "HOL-Library.Signed_Division" "HOL-Library.Monad_Syntax"
begin

unbundle bit_operations_syntax

section \<open>WebAssembly value types and LLVM types\<close>

text \<open>
  The emitter in \<^verbatim>\<open>Source/Runtime/LLVMEmitIR.cpp\<close> writes LLVM IR through an
  \<^verbatim>\<open>llvm::IRBuilder\<close>. The IR it builds is data here (instructions, basic blocks, SSA
  values); the emitter's member functions are functions on the emitter state; what the emitted
  IR does when it runs is given by an interpreter for the instructions the emitter uses.
\<close>

datatype ValueType = any | i32 | i64 | f32 | f64 | v128

datatype llvm_type =
    llvmVoidType | llvmI1Type | llvmI8Type | llvmI16Type | llvmI32Type | llvmI64Type
  | llvmF32Type | llvmF64Type
  | llvmI8x16Type | llvmI16x8Type | llvmI32x4Type | llvmI64x2Type | llvmF32x4Type | llvmF64x2Type
  | llvmX86MMXType
  | PointerTo llvm_type
  | StructType "llvm_type list"

abbreviation llvmI8PtrType :: llvm_type where
  "llvmI8PtrType \<equiv> PointerTo llvmI8Type"

text \<open>\<^verbatim>\<open>asLLVMType\<close> is declared in \<^verbatim>\<open>LLVMJIT.h\<close>: the LLVM type of a value type
  (\<^verbatim>\<open>v128\<close> is the canonical vector type \<^verbatim>\<open>llvmI64x2Type\<close>).\<close>

fun asLLVMType :: "ValueType \<Rightarrow> llvm_type" where
  "asLLVMType any = llvmVoidType"
| "asLLVMType i32 = llvmI32Type"
| "asLLVMType i64 = llvmI64Type"
| "asLLVMType f32 = llvmF32Type"
| "asLLVMType f64 = llvmF64Type"
| "asLLVMType v128 = llvmI64x2Type"

fun isVectorTy :: "llvm_type \<Rightarrow> bool" where
  "isVectorTy llvmI8x16Type = True"
| "isVectorTy llvmI16x8Type = True"
| "isVectorTy llvmI32x4Type = True"
| "isVectorTy llvmI64x2Type = True"
| "isVectorTy llvmF32x4Type = True"
| "isVectorTy llvmF64x2Type = True"
| "isVectorTy _ = False"

fun isX86_MMXTy :: "llvm_type \<Rightarrow> bool" where
  "isX86_MMXTy llvmX86MMXType = True"
| "isX86_MMXTy _ = False"

section \<open>Floating-point values\<close>

text \<open>
  A floating-point value is a NaN, an infinity or a finite number. Finite values carry their
  exact numeric value; the two zeros are not told apart (no comparison and no conversion to an
  integer that the emitter uses distinguishes them). \<open>is_f32\<close> says which finite values a
  32-bit float can hold: at most 24 significant bits, exponent of the last bit in -149..104.
\<close>

datatype fpval = NaN | PosInf | NegInf | Finite real

definition is_f32 :: "fpval \<Rightarrow> bool" where
  "is_f32 x = (case x of Finite r \<Rightarrow>
      (\<exists>m e :: int. \<bar>m\<bar> < 2 ^ 24 \<and> - 149 \<le> e \<and> e \<le> 104 \<and> r = of_int m * 2 powr (of_int e))
    | _ \<Rightarrow> True)"

fun fp_isnan :: "fpval \<Rightarrow> bool" where
  "fp_isnan NaN = True"
| "fp_isnan _ = False"

text \<open>Ordered comparisons are false as soon as one side is a NaN.\<close>

fun fp_le :: "fpval \<Rightarrow> fpval \<Rightarrow> bool" where
  "fp_le NaN _ = False"
| "fp_le _ NaN = False"
| "fp_le NegInf _ = True"
| "fp_le _ PosInf = True"
| "fp_le PosInf _ = False"
| "fp_le _ NegInf = False"
| "fp_le (Finite a) (Finite b) = (a \<le> b)"

definition fp_ge :: "fpval \<Rightarrow> fpval \<Rightarrow> bool" where
  "fp_ge a b = fp_le b a"

text \<open>Truncation towards zero, the rounding of \<^verbatim>\<open>fptosi\<close> and \<^verbatim>\<open>fptoui\<close>.\<close>

definition truncate_real :: "real \<Rightarrow> int" where
  "truncate_real r = (if 0 \<le> r then \<lfloor>r\<rfloor> else \<lceil>r\<rceil>)"

text \<open>
  The C++ conversion of an integer to a float of \<open>p\<close> significant bits
  (\<^verbatim>\<open>F32(INT32_MAX)\<close>, \<^verbatim>\<open>F64(UINT64_MAX)\<close>): round to nearest, ties to even.
\<close>

fun bit_length :: "nat \<Rightarrow> nat" where
  "bit_length n = (if n = 0 then 0 else Suc (bit_length (n div 2)))"

declare bit_length.simps [simp del]

definition round_to_precision :: "nat \<Rightarrow> int \<Rightarrow> int" where
  "round_to_precision p n =
     (let a = nat \<bar>n\<bar>; k = bit_length a in
      if k \<le> p then n
      else let sh = k - p; q = a div 2 ^ sh; r = a mod 2 ^ sh; half = 2 ^ (sh - 1);
               q' = (if half < r \<or> (r = half \<and> odd q) then q + 1 else q)
           in sgn n * int (q' * 2 ^ sh))"

definition F32 :: "int \<Rightarrow> fpval" where
  "F32 n = Finite (of_int (round_to_precision 24 n))"

definition F64 :: "int \<Rightarrow> fpval" where
  "F64 n = Finite (of_int (round_to_precision 53 n))"

section \<open>SSA values, instructions and basic blocks\<close>

datatype Value =
    ConstantInt1 bool
  | ConstantInt8 "8 word"
  | ConstantInt32 "32 word"
  | ConstantInt64 "64 word"
  | ConstantFP32 fpval
  | ConstantFP64 fpval
  | ConstantVector "Value list"
  | Argument nat
  | Inst nat

datatype BinOp = Add | Sub | Mul | And | Or | Xor | Shl | LShr | AShr | SDiv | UDiv | SRem | URem

datatype ICmpPred = ICMP_EQ | ICMP_NE

datatype FCmpPred = FCMP_UNO | FCMP_OGE | FCMP_OLE

datatype CastOp = ZExt | SExt | Trunc | BitCast | PointerCast | PtrToInt | FPToSI | FPToUI

datatype BranchWeights = NoWeights | likelyFalseBranchWeights | likelyTrueBranchWeights

text \<open>An instruction; a basic block is referred to by its number, an instruction by its
  number (\<open>Inst n\<close> is the value it computes). Loads and stores carry the alignment, the
  volatile flag and the sequentially-consistent flag that the emitter sets on them.\<close>

datatype Instruction =
    BinaryOperator BinOp Value Value
  | ICmp ICmpPred Value Value
  | FCmp FCmpPred Value Value
  | Cast CastOp Value llvm_type
  | Select Value Value Value
  | PHI "(Value \<times> nat) list"
  | Load Value nat bool bool
  | Store Value Value nat bool bool
  | InBoundsGEP Value "Value list"
  | CallIntrinsic string "Value list" "nat option"
  | Br nat
  | CondBr Value nat nat BranchWeights
  | Unreachable

fun typedZeroConstants :: "ValueType \<Rightarrow> Value" where
  "typedZeroConstants i32 = ConstantInt32 0"
| "typedZeroConstants i64 = ConstantInt64 0"
| "typedZeroConstants f32 = ConstantFP32 (Finite 0)"
| "typedZeroConstants f64 = ConstantFP64 (Finite 0)"
| "typedZeroConstants v128 = ConstantVector [ConstantInt64 0, ConstantInt64 0]"
| "typedZeroConstants any = ConstantVector []"

section \<open>The emitter state\<close>

datatype ControlContextType =
  Type_function | Type_block | Type_ifThen | Type_ifElse | Type_loop | Type_try | Type_catch

record ControlContext =
  type :: ControlContextType
  endBlock :: nat
  endPHIs :: "nat list"
  elseBlock :: "nat option"
  elseArgs :: "Value list"
  resultTypes :: "ValueType list"
  outerStackSize :: nat
  outerBranchTargetStackSize :: nat
  isReachable :: bool

record BranchTarget =
  params :: "ValueType list"
  block :: nat
  phis :: "nat list"

record TryContext =
  unwindToBlock :: nat

record CatchContext =
  landingPadInst :: Value
  nextHandlerBlock :: nat
  exceptionTypeInstance :: Value
  exceptionPointer :: Value

text \<open>
  \<^verbatim>\<open>EmitFunctionContext\<close> with the part of the \<^verbatim>\<open>llvm::Function\<close> and of the
  \<^verbatim>\<open>irBuilder\<close> that it writes to: the instructions created so far (\<open>insts\<close>, each with the
  type of its value), the instruction numbers of every basic block in order (\<open>blocks\<close>), the
  names and the layout order of the blocks, and the builder's insertion block.
  The three stacks are \<^verbatim>\<open>std::vector\<close>s: the top is the last element.
\<close>

record EmitFunctionContext =
  controlStack :: "ControlContext list"
  branchTargetStack :: "BranchTarget list"
  stack :: "Value list"
  tryStack :: "TryContext list"
  catchStack :: "CatchContext list"
  insts :: "nat \<Rightarrow> (llvm_type \<times> Instruction) option"
  numInsts :: nat
  blocks :: "nat \<Rightarrow> nat list"
  blockNames :: "string list"
  layout :: "nat list"
  insertBlock :: "nat option"
  argumentTypes :: "llvm_type list"
  memoryBasePointerVariable :: Value

section \<open>The IR builder\<close>

definition typeOf :: "(nat \<Rightarrow> (llvm_type \<times> Instruction) option) \<Rightarrow> llvm_type list \<Rightarrow> Value \<Rightarrow> llvm_type" where
  "typeOf is ats v = (case v of
      ConstantInt1 _ \<Rightarrow> llvmI1Type
    | ConstantInt8 _ \<Rightarrow> llvmI8Type
    | ConstantInt32 _ \<Rightarrow> llvmI32Type
    | ConstantInt64 _ \<Rightarrow> llvmI64Type
    | ConstantFP32 _ \<Rightarrow> llvmF32Type
    | ConstantFP64 _ \<Rightarrow> llvmF64Type
    | ConstantVector _ \<Rightarrow> llvmI64x2Type
    | Argument n \<Rightarrow> (if n < length ats then ats ! n else llvmVoidType)
    | Inst n \<Rightarrow> (case is n of Some (ty, _) \<Rightarrow> ty | None \<Rightarrow> llvmVoidType))"

definition getType :: "EmitFunctionContext \<Rightarrow> Value \<Rightarrow> llvm_type" where
  "getType s v = typeOf (insts s) (argumentTypes s) v"

text \<open>Every \<^verbatim>\<open>irBuilder.Create...\<close> makes a new instruction and appends it to the insertion
  block, when there is one. Constant operands are not folded: the instruction is always
  created, which computes the same value.\<close>

definition Insert :: "llvm_type \<Rightarrow> Instruction \<Rightarrow> EmitFunctionContext \<Rightarrow> Value \<times> EmitFunctionContext" where
  "Insert ty i s =
     (Inst (numInsts s),
      s\<lparr>insts := (insts s)(numInsts s \<mapsto> (ty, i)),
        numInsts := Suc (numInsts s),
        blocks := (case insertBlock s of
                     None \<Rightarrow> blocks s
                   | Some b \<Rightarrow> (blocks s)(b := blocks s b @ [numInsts s]))\<rparr>)"

definition BasicBlock_Create :: "string \<Rightarrow> EmitFunctionContext \<Rightarrow> nat \<times> EmitFunctionContext" where
  "BasicBlock_Create name s =
     (length (blockNames s),
      s\<lparr>blockNames := blockNames s @ [name],
        layout := layout s @ [length (blockNames s)],
        blocks := (blocks s)(length (blockNames s) := [])\<rparr>)"

definition SetInsertPoint :: "nat \<Rightarrow> EmitFunctionContext \<Rightarrow> EmitFunctionContext" where
  "SetInsertPoint b s = s\<lparr>insertBlock := Some b\<rparr>"

definition GetInsertBlock :: "EmitFunctionContext \<Rightarrow> nat option" where
  "GetInsertBlock s = insertBlock s"

fun insertAfter :: "nat \<Rightarrow> nat \<Rightarrow> nat list \<Rightarrow> nat list" where
  "insertAfter b a [] = [b]"
| "insertAfter b a (x # xs) = (if x = a then x # b # xs else x # insertAfter b a xs)"

definition moveAfter :: "nat \<Rightarrow> nat option \<Rightarrow> EmitFunctionContext \<Rightarrow> EmitFunctionContext" where
  "moveAfter b a s = (case a of
      None \<Rightarrow> s
    | Some a' \<Rightarrow> s\<lparr>layout := insertAfter b a' (removeAll b (layout s))\<rparr>)"

definition CreateBinOp :: "BinOp \<Rightarrow> Value \<Rightarrow> Value \<Rightarrow> EmitFunctionContext \<Rightarrow> Value \<times> EmitFunctionContext" where
  "CreateBinOp opc l r s = Insert (getType s l) (BinaryOperator opc l r) s"

definition CreateICmp :: "ICmpPred \<Rightarrow> Value \<Rightarrow> Value \<Rightarrow> EmitFunctionContext \<Rightarrow> Value \<times> EmitFunctionContext" where
  "CreateICmp p l r s = Insert llvmI1Type (ICmp p l r) s"

definition CreateFCmp :: "FCmpPred \<Rightarrow> Value \<Rightarrow> Value \<Rightarrow> EmitFunctionContext \<Rightarrow> Value \<times> EmitFunctionContext" where
  "CreateFCmp p l r s = Insert llvmI1Type (FCmp p l r) s"

definition CreateCast :: "CastOp \<Rightarrow> Value \<Rightarrow> llvm_type \<Rightarrow> EmitFunctionContext \<Rightarrow> Value \<times> EmitFunctionContext" where
  "CreateCast c v ty s = Insert ty (Cast c v ty) s"

definition CreateSelect :: "Value \<Rightarrow> Value \<Rightarrow> Value \<Rightarrow> EmitFunctionContext \<Rightarrow> Value \<times> EmitFunctionContext" where
  "CreateSelect c t f s = Insert (getType s t) (Select c t f) s"

definition CreatePHI :: "llvm_type \<Rightarrow> EmitFunctionContext \<Rightarrow> nat \<times> EmitFunctionContext" where
  "CreatePHI ty s = (numInsts s, snd (Insert ty (PHI []) s))"

definition CreateLoad :: "Value \<Rightarrow> EmitFunctionContext \<Rightarrow> Value \<times> EmitFunctionContext" where
  "CreateLoad p s =
     Insert (case getType s p of PointerTo ty \<Rightarrow> ty | _ \<Rightarrow> llvmVoidType) (Load p 0 False False) s"

definition CreateStore :: "Value \<Rightarrow> Value \<Rightarrow> EmitFunctionContext \<Rightarrow> Value \<times> EmitFunctionContext" where
  "CreateStore v p s = Insert llvmVoidType (Store v p 0 False False) s"

definition CreateInBoundsGEP :: "Value \<Rightarrow> Value list \<Rightarrow> EmitFunctionContext \<Rightarrow> Value \<times> EmitFunctionContext" where
  "CreateInBoundsGEP p idx s = Insert (getType s p) (InBoundsGEP p idx) s"

definition CreateBr :: "nat \<Rightarrow> EmitFunctionContext \<Rightarrow> EmitFunctionContext" where
  "CreateBr b s = snd (Insert llvmVoidType (Br b) s)"

definition CreateCondBr :: "Value \<Rightarrow> nat \<Rightarrow> nat \<Rightarrow> BranchWeights \<Rightarrow> EmitFunctionContext \<Rightarrow> EmitFunctionContext" where
  "CreateCondBr c t f w s = snd (Insert llvmVoidType (CondBr c t f w) s)"

definition CreateUnreachable :: "EmitFunctionContext \<Rightarrow> EmitFunctionContext" where
  "CreateUnreachable s = snd (Insert llvmVoidType Unreachable s)"

text \<open>Operations on an instruction that exists already: a \<open>\<phi>\<close>-node gets one more incoming
  value, is asked for their number, or is erased from its block; a load or a store gets its
  alignment and flags.\<close>

definition addIncoming :: "nat \<Rightarrow> Value \<Rightarrow> nat option \<Rightarrow> EmitFunctionContext \<Rightarrow> EmitFunctionContext option" where
  "addIncoming phi v b s = (case (insts s phi, b) of
      (Some (ty, PHI inc), Some b') \<Rightarrow> Some (s\<lparr>insts := (insts s)(phi \<mapsto> (ty, PHI (inc @ [(v, b')])))\<rparr>)
    | _ \<Rightarrow> None)"

definition getNumIncomingValues :: "nat \<Rightarrow> EmitFunctionContext \<Rightarrow> nat" where
  "getNumIncomingValues phi s = (case insts s phi of Some (ty, PHI inc) \<Rightarrow> length inc | _ \<Rightarrow> 0)"

definition eraseFromParent :: "nat \<Rightarrow> EmitFunctionContext \<Rightarrow> EmitFunctionContext" where
  "eraseFromParent i s = s\<lparr>insts := (insts s)(i := None), blocks := (\<lambda>b. removeAll i (blocks s b))\<rparr>"

definition updateInst :: "Value \<Rightarrow> (Instruction \<Rightarrow> Instruction) \<Rightarrow> EmitFunctionContext \<Rightarrow> EmitFunctionContext" where
  "updateInst v f s = (case v of
      Inst n \<Rightarrow> s\<lparr>insts := (insts s)(n := map_option (\<lambda>(ty, i). (ty, f i)) (insts s n))\<rparr>
    | _ \<Rightarrow> s)"

definition setAlignment :: "Value \<Rightarrow> nat \<Rightarrow> EmitFunctionContext \<Rightarrow> EmitFunctionContext" where
  "setAlignment v a = updateInst v (\<lambda>i. case i of
      Load p _ vol ato \<Rightarrow> Load p a vol ato
    | Store x p _ vol ato \<Rightarrow> Store x p a vol ato
    | _ \<Rightarrow> i)"

definition setVolatile :: "Value \<Rightarrow> bool \<Rightarrow> EmitFunctionContext \<Rightarrow> EmitFunctionContext" where
  "setVolatile v vol = updateInst v (\<lambda>i. case i of
      Load p a _ ato \<Rightarrow> Load p a vol ato
    | Store x p a _ ato \<Rightarrow> Store x p a vol ato
    | _ \<Rightarrow> i)"

definition setAtomic :: "Value \<Rightarrow> EmitFunctionContext \<Rightarrow> EmitFunctionContext" where
  "setAtomic v = updateInst v (\<lambda>i. case i of
      Load p a vol _ \<Rightarrow> Load p a vol True
    | Store x p a vol _ \<Rightarrow> Store x p a vol True
    | _ \<Rightarrow> i)"

definition emitLiteral_U32 :: "32 word \<Rightarrow> Value" where
  "emitLiteral_U32 x = ConstantInt32 x"

definition emitLiteral_U64 :: "64 word \<Rightarrow> Value" where
  "emitLiteral_U64 x = ConstantInt64 x"

definition emitLiteral_F32 :: "fpval \<Rightarrow> Value" where
  "emitLiteral_F32 x = ConstantFP32 x"

definition emitLiteral_F64 :: "fpval \<Rightarrow> Value" where
  "emitLiteral_F64 x = ConstantFP64 x"

section \<open>What the emitted IR does\<close>

text \<open>
  Run-time values, and the meaning of the instructions that the emitter uses, after the LLVM
  language reference: integer arithmetic wraps; \<^verbatim>\<open>sdiv\<close>, \<^verbatim>\<open>udiv\<close>, \<^verbatim>\<open>srem\<close> and
  \<^verbatim>\<open>urem\<close> have undefined behaviour on a zero divisor, the signed ones also on the overflow
  \<open>INT_MIN / -1\<close>; a shift by the width or more and a float-to-integer conversion whose result
  does not fit give poison; \<^verbatim>\<open>select\<close> passes on only the operand it selects; a
  \<^verbatim>\<open>getelementptr\<close> index is a signed offset.
\<close>

datatype rval =
    VI1 bool | VI8 "8 word" | VI16 "16 word" | VI32 "32 word" | VI64 "64 word"
  | VF32 fpval | VF64 fpval | VPtr int | VPoison

datatype 'a opres = Defined 'a | Poisoned | UB

definition word_sdiv :: "'a::len word \<Rightarrow> 'a word \<Rightarrow> 'a word" where
  "word_sdiv a b = word_of_int (sint a sdiv sint b)"

definition word_srem :: "'a::len word \<Rightarrow> 'a word \<Rightarrow> 'a word" where
  "word_srem a b = word_of_int (sint a smod sint b)"

definition word_binop :: "BinOp \<Rightarrow> 'a::len word \<Rightarrow> 'a word \<Rightarrow> 'a word opres" where
  "word_binop opc a b = (case opc of
      Add \<Rightarrow> Defined (a + b)
    | Sub \<Rightarrow> Defined (a - b)
    | Mul \<Rightarrow> Defined (a * b)
    | And \<Rightarrow> Defined (a AND b)
    | Or \<Rightarrow> Defined (a OR b)
    | Xor \<Rightarrow> Defined (a XOR b)
    | Shl \<Rightarrow> (if unat b < LENGTH('a) then Defined (push_bit (unat b) a) else Poisoned)
    | LShr \<Rightarrow> (if unat b < LENGTH('a) then Defined (drop_bit (unat b) a) else Poisoned)
    | AShr \<Rightarrow> (if unat b < LENGTH('a) then Defined (signed_drop_bit (unat b) a) else Poisoned)
    | SDiv \<Rightarrow> (if b = 0 \<or> (sint a = - (2 ^ (LENGTH('a) - 1)) \<and> b = - 1) then UB
               else Defined (word_sdiv a b))
    | UDiv \<Rightarrow> (if b = 0 then UB else Defined (a div b))
    | SRem \<Rightarrow> (if b = 0 \<or> (sint a = - (2 ^ (LENGTH('a) - 1)) \<and> b = - 1) then UB
               else Defined (word_srem a b))
    | URem \<Rightarrow> (if b = 0 then UB else Defined (a mod b)))"

definition bool_binop :: "BinOp \<Rightarrow> bool \<Rightarrow> bool \<Rightarrow> bool opres" where
  "bool_binop opc a b = (case opc of
      And \<Rightarrow> Defined (a \<and> b)
    | Or \<Rightarrow> Defined (a \<or> b)
    | Xor \<Rightarrow> Defined (a \<noteq> b)
    | _ \<Rightarrow> UB)"

fun lift_opres :: "('a \<Rightarrow> rval) \<Rightarrow> 'a opres \<Rightarrow> rval option" where
  "lift_opres f (Defined x) = Some (f x)"
| "lift_opres f Poisoned = Some VPoison"
| "lift_opres f UB = None"

definition isDivisionOp :: "BinOp \<Rightarrow> bool" where
  "isDivisionOp opc = (opc = SDiv \<or> opc = UDiv \<or> opc = SRem \<or> opc = URem)"

text \<open>\<open>None\<close> is undefined behaviour (or an operand of a type that the instruction does not
  take).\<close>

definition eval_binop :: "BinOp \<Rightarrow> rval \<Rightarrow> rval \<Rightarrow> rval option" where
  "eval_binop opc x y =
     (if x = VPoison \<or> y = VPoison then (if isDivisionOp opc then None else Some VPoison)
      else case x of
          VI32 a \<Rightarrow> (case y of VI32 b \<Rightarrow> lift_opres VI32 (word_binop opc a b) | _ \<Rightarrow> None)
        | VI64 a \<Rightarrow> (case y of VI64 b \<Rightarrow> lift_opres VI64 (word_binop opc a b) | _ \<Rightarrow> None)
        | VI8 a \<Rightarrow> (case y of VI8 b \<Rightarrow> lift_opres VI8 (word_binop opc a b) | _ \<Rightarrow> None)
        | VI1 a \<Rightarrow> (case y of VI1 b \<Rightarrow> lift_opres VI1 (bool_binop opc a b) | _ \<Rightarrow> None)
        | _ \<Rightarrow> None)"

definition icmp_result :: "ICmpPred \<Rightarrow> bool \<Rightarrow> rval" where
  "icmp_result p eq = VI1 (case p of ICMP_EQ \<Rightarrow> eq | ICMP_NE \<Rightarrow> \<not> eq)"

definition eval_icmp :: "ICmpPred \<Rightarrow> rval \<Rightarrow> rval \<Rightarrow> rval option" where
  "eval_icmp p x y =
     (if x = VPoison \<or> y = VPoison then Some VPoison
      else case x of
          VI32 a \<Rightarrow> (case y of VI32 b \<Rightarrow> Some (icmp_result p (a = b)) | _ \<Rightarrow> None)
        | VI64 a \<Rightarrow> (case y of VI64 b \<Rightarrow> Some (icmp_result p (a = b)) | _ \<Rightarrow> None)
        | VI8 a \<Rightarrow> (case y of VI8 b \<Rightarrow> Some (icmp_result p (a = b)) | _ \<Rightarrow> None)
        | VI1 a \<Rightarrow> (case y of VI1 b \<Rightarrow> Some (icmp_result p (a = b)) | _ \<Rightarrow> None)
        | VPtr a \<Rightarrow> (case y of VPtr b \<Rightarrow> Some (icmp_result p (a = b)) | _ \<Rightarrow> None)
        | _ \<Rightarrow> None)"

definition fcmp_result :: "FCmpPred \<Rightarrow> fpval \<Rightarrow> fpval \<Rightarrow> rval" where
  "fcmp_result p a b = VI1 (case p of
      FCMP_UNO \<Rightarrow> fp_isnan a \<or> fp_isnan b
    | FCMP_OGE \<Rightarrow> fp_ge a b
    | FCMP_OLE \<Rightarrow> fp_le a b)"

definition eval_fcmp :: "FCmpPred \<Rightarrow> rval \<Rightarrow> rval \<Rightarrow> rval option" where
  "eval_fcmp p x y =
     (if x = VPoison \<or> y = VPoison then Some VPoison
      else case x of
          VF32 a \<Rightarrow> (case y of VF32 b \<Rightarrow> Some (fcmp_result p a b) | _ \<Rightarrow> None)
        | VF64 a \<Rightarrow> (case y of VF64 b \<Rightarrow> Some (fcmp_result p a b) | _ \<Rightarrow> None)
        | _ \<Rightarrow> None)"

definition fptosi :: "fpval \<Rightarrow> 'a::len word opres" where
  "fptosi x = (case x of
      Finite r \<Rightarrow>
        (if - (2 ^ (LENGTH('a) - 1)) \<le> truncate_real r \<and> truncate_real r < 2 ^ (LENGTH('a) - 1)
         then Defined (word_of_int (truncate_real r)) else Poisoned)
    | _ \<Rightarrow> Poisoned)"

definition fptoui :: "fpval \<Rightarrow> 'a::len word opres" where
  "fptoui x = (case x of
      Finite r \<Rightarrow>
        (if 0 \<le> truncate_real r \<and> truncate_real r < 2 ^ LENGTH('a)
         then Defined (word_of_int (truncate_real r)) else Poisoned)
    | _ \<Rightarrow> Poisoned)"

fun fp_of :: "rval \<Rightarrow> fpval option" where
  "fp_of (VF32 x) = Some x"
| "fp_of (VF64 x) = Some x"
| "fp_of _ = None"

definition eval_zext :: "rval \<Rightarrow> llvm_type \<Rightarrow> rval option" where
  "eval_zext v ty = (case v of
      VI1 b \<Rightarrow> (case ty of llvmI32Type \<Rightarrow> Some (VI32 (of_bool b))
                         | llvmI64Type \<Rightarrow> Some (VI64 (of_bool b)) | _ \<Rightarrow> None)
    | VI8 a \<Rightarrow> (case ty of llvmI32Type \<Rightarrow> Some (VI32 (ucast a))
                         | llvmI64Type \<Rightarrow> Some (VI64 (ucast a)) | _ \<Rightarrow> None)
    | VI16 a \<Rightarrow> (case ty of llvmI32Type \<Rightarrow> Some (VI32 (ucast a))
                          | llvmI64Type \<Rightarrow> Some (VI64 (ucast a)) | _ \<Rightarrow> None)
    | VI32 a \<Rightarrow> (case ty of llvmI64Type \<Rightarrow> Some (VI64 (ucast a)) | _ \<Rightarrow> None)
    | _ \<Rightarrow> None)"

definition eval_sext :: "rval \<Rightarrow> llvm_type \<Rightarrow> rval option" where
  "eval_sext v ty = (case v of
      VI8 a \<Rightarrow> (case ty of llvmI32Type \<Rightarrow> Some (VI32 (scast a))
                         | llvmI64Type \<Rightarrow> Some (VI64 (scast a)) | _ \<Rightarrow> None)
    | VI16 a \<Rightarrow> (case ty of llvmI32Type \<Rightarrow> Some (VI32 (scast a))
                          | llvmI64Type \<Rightarrow> Some (VI64 (scast a)) | _ \<Rightarrow> None)
    | VI32 a \<Rightarrow> (case ty of llvmI64Type \<Rightarrow> Some (VI64 (scast a)) | _ \<Rightarrow> None)
    | _ \<Rightarrow> None)"

definition eval_trunc :: "rval \<Rightarrow> llvm_type \<Rightarrow> rval option" where
  "eval_trunc v ty = (case v of
      VI32 a \<Rightarrow> (case ty of llvmI8Type \<Rightarrow> Some (VI8 (ucast a))
                          | llvmI16Type \<Rightarrow> Some (VI16 (ucast a))
                          | llvmI32Type \<Rightarrow> Some (VI32 a) | _ \<Rightarrow> None)
    | VI64 a \<Rightarrow> (case ty of llvmI8Type \<Rightarrow> Some (VI8 (ucast a))
                          | llvmI16Type \<Rightarrow> Some (VI16 (ucast a))
                          | llvmI32Type \<Rightarrow> Some (VI32 (ucast a)) | _ \<Rightarrow> None)
    | _ \<Rightarrow> None)"

definition eval_fptoint :: "bool \<Rightarrow> fpval \<Rightarrow> llvm_type \<Rightarrow> rval option" where
  "eval_fptoint isSigned x ty = (case ty of
      llvmI32Type \<Rightarrow>
        Some (case (if isSigned then fptosi x else fptoui x) of Defined w \<Rightarrow> VI32 w | _ \<Rightarrow> VPoison)
    | llvmI64Type \<Rightarrow>
        Some (case (if isSigned then fptosi x else fptoui x) of Defined w \<Rightarrow> VI64 w | _ \<Rightarrow> VPoison)
    | _ \<Rightarrow> None)"

definition eval_cast :: "CastOp \<Rightarrow> rval \<Rightarrow> llvm_type \<Rightarrow> rval option" where
  "eval_cast c v ty =
     (if v = VPoison then Some VPoison
      else case c of
          ZExt \<Rightarrow> eval_zext v ty
        | SExt \<Rightarrow> eval_sext v ty
        | Trunc \<Rightarrow> eval_trunc v ty
        | PointerCast \<Rightarrow> (case v of VPtr p \<Rightarrow> Some (VPtr p) | _ \<Rightarrow> None)
        | PtrToInt \<Rightarrow> (case v of VPtr p \<Rightarrow>
              (case ty of llvmI64Type \<Rightarrow> Some (VI64 (word_of_int p)) | _ \<Rightarrow> None) | _ \<Rightarrow> None)
        | FPToSI \<Rightarrow> (case fp_of v of Some x \<Rightarrow> eval_fptoint True x ty | None \<Rightarrow> None)
        | FPToUI \<Rightarrow> (case fp_of v of Some x \<Rightarrow> eval_fptoint False x ty | None \<Rightarrow> None)
        | BitCast \<Rightarrow> None)"

type_synonym regs = "Value \<Rightarrow> rval option"

type_synonym heap = "int \<Rightarrow> rval option"

text \<open>The value of an operand: a constant is its own value, an instruction's or an argument's
  value is read from the registers.\<close>

fun operand :: "regs \<Rightarrow> Value \<Rightarrow> rval option" where
  "operand \<rho> (ConstantInt1 b) = Some (VI1 b)"
| "operand \<rho> (ConstantInt8 w) = Some (VI8 w)"
| "operand \<rho> (ConstantInt32 w) = Some (VI32 w)"
| "operand \<rho> (ConstantInt64 w) = Some (VI64 w)"
| "operand \<rho> (ConstantFP32 x) = Some (VF32 x)"
| "operand \<rho> (ConstantFP64 x) = Some (VF64 x)"
| "operand \<rho> (ConstantVector vs) = None"
| "operand \<rho> (Argument n) = \<rho> (Argument n)"
| "operand \<rho> (Inst n) = \<rho> (Inst n)"

definition eval_select :: "rval \<Rightarrow> rval \<Rightarrow> rval \<Rightarrow> rval option" where
  "eval_select c t f = (case c of
      VI1 b \<Rightarrow> Some (if b then t else f)
    | VPoison \<Rightarrow> Some VPoison
    | _ \<Rightarrow> None)"

definition eval_gep :: "rval \<Rightarrow> rval list \<Rightarrow> rval option" where
  "eval_gep b idx = (case b of
      VPtr p \<Rightarrow> (case idx of
          [VI64 i] \<Rightarrow> Some (VPtr (p + sint i))
        | [VI32 i] \<Rightarrow> Some (VPtr (p + sint i))
        | _ \<Rightarrow> None)
    | _ \<Rightarrow> None)"

fun those_list :: "'a option list \<Rightarrow> 'a list option" where
  "those_list [] = Some []"
| "those_list (x # xs) = (case x of None \<Rightarrow> None | Some y \<Rightarrow> map_option ((#) y) (those_list xs))"

text \<open>One instruction that computes a value: \<open>prev\<close> is the block that control came from
  (a \<open>\<phi>\<close>-node takes the value that came in from there).\<close>

definition eval_inst :: "regs \<Rightarrow> heap \<Rightarrow> nat option \<Rightarrow> Instruction \<Rightarrow> rval option" where
  "eval_inst \<rho> h prev i = (case i of
      BinaryOperator opc l r \<Rightarrow>
        (case (operand \<rho> l, operand \<rho> r) of (Some a, Some b) \<Rightarrow> eval_binop opc a b | _ \<Rightarrow> None)
    | ICmp p l r \<Rightarrow>
        (case (operand \<rho> l, operand \<rho> r) of (Some a, Some b) \<Rightarrow> eval_icmp p a b | _ \<Rightarrow> None)
    | FCmp p l r \<Rightarrow>
        (case (operand \<rho> l, operand \<rho> r) of (Some a, Some b) \<Rightarrow> eval_fcmp p a b | _ \<Rightarrow> None)
    | Cast c v ty \<Rightarrow> (case operand \<rho> v of Some a \<Rightarrow> eval_cast c a ty | None \<Rightarrow> None)
    | Select c t f \<Rightarrow>
        (case (operand \<rho> c, operand \<rho> t, operand \<rho> f) of
           (Some a, Some b, Some d) \<Rightarrow> eval_select a b d | _ \<Rightarrow> None)
    | PHI inc \<Rightarrow>
        (case prev of None \<Rightarrow> None
         | Some p \<Rightarrow> (case find (\<lambda>(v, b). b = p) inc of None \<Rightarrow> None | Some (v, b) \<Rightarrow> operand \<rho> v))
    | Load p a vol ato \<Rightarrow> (case operand \<rho> p of Some (VPtr q) \<Rightarrow> h q | _ \<Rightarrow> None)
    | InBoundsGEP p idx \<Rightarrow>
        (case (operand \<rho> p, those_list (map (operand \<rho>) idx)) of
           (Some a, Some is) \<Rightarrow> eval_gep a is | _ \<Rightarrow> None)
    | _ \<Rightarrow> None)"

text \<open>The runtime intrinsics that do not return (the traps, and \<^verbatim>\<open>throwException\<close>).\<close>

definition isNonReturningIntrinsic :: "string \<Rightarrow> bool" where
  "isNonReturningIntrinsic name = (name \<in> set
     [''unreachableTrap'', ''divideByZeroOrIntegerOverflowTrap'', ''invalidFloatOperationTrap'',
      ''misalignedAtomicTrap'', ''indirectCallSignatureMismatch'', ''throwException''])"

text \<open>
  How a run of emitted code ends: in a call of a non-returning intrinsic (with the values of its
  arguments); at the end of a block that has no terminator yet, which is where the emitter
  goes on to insert the code of the next operator (with the registers and the memory at that
  point); in undefined behaviour; or with the fuel used up. Each branch taken costs one unit
  of fuel.
\<close>

datatype Outcome =
    Trapped string "rval list"
  | FellThrough nat regs heap
  | Undefined
  | OutOfFuel

function exec :: "nat \<Rightarrow> EmitFunctionContext \<Rightarrow> nat option \<Rightarrow> nat \<Rightarrow> regs \<Rightarrow> heap \<Rightarrow> nat list \<Rightarrow> Outcome" where
  "exec fuel s prev cur \<rho> h [] = FellThrough cur \<rho> h"
| "exec fuel s prev cur \<rho> h (n # ns) = (case insts s n of
      None \<Rightarrow> Undefined
    | Some (ty, Br b) \<Rightarrow>
        (case fuel of 0 \<Rightarrow> OutOfFuel | Suc f \<Rightarrow> exec f s (Some cur) b \<rho> h (blocks s b))
    | Some (ty, CondBr c t e w) \<Rightarrow>
        (case operand \<rho> c of
           Some (VI1 True) \<Rightarrow>
             (case fuel of 0 \<Rightarrow> OutOfFuel | Suc f \<Rightarrow> exec f s (Some cur) t \<rho> h (blocks s t))
         | Some (VI1 False) \<Rightarrow>
             (case fuel of 0 \<Rightarrow> OutOfFuel | Suc f \<Rightarrow> exec f s (Some cur) e \<rho> h (blocks s e))
         | _ \<Rightarrow> Undefined)
    | Some (ty, Unreachable) \<Rightarrow> Undefined
    | Some (ty, CallIntrinsic name args unwind) \<Rightarrow>
        (case those_list (map (operand \<rho>) args) of
           None \<Rightarrow> Undefined
         | Some vs \<Rightarrow> if isNonReturningIntrinsic name then Trapped name vs else Undefined)
    | Some (ty, Store v p a vol ato) \<Rightarrow>
        (case (operand \<rho> v, operand \<rho> p) of
           (Some x, Some (VPtr q)) \<Rightarrow> exec fuel s prev cur \<rho> (h(q \<mapsto> x)) ns
         | _ \<Rightarrow> Undefined)
    | Some (ty, i) \<Rightarrow>
        (case eval_inst \<rho> h prev i of
           None \<Rightarrow> Undefined
         | Some v \<Rightarrow> exec fuel s prev cur (\<rho>(Inst n \<mapsto> v)) h ns))"
  by pat_completeness auto
termination
  by (relation "inv_image (less_than <*lex*> less_than)
        (\<lambda>(fuel, s, prev, cur, \<rho>, h, ns). (fuel, length ns))") auto

section \<open>Operand stack manipulation\<close>

text \<open>
  The depth assertions of \<^verbatim>\<open>pop\<close> and \<^verbatim>\<open>popMultiple\<close> subtract two \<^verbatim>\<open>Uptr\<close>
  (unsigned 64-bit) sizes, so the difference wraps around. A failed \<^verbatim>\<open>wavmAssert\<close>, and an
  access outside a vector, is the result \<open>None\<close>.
\<close>

definition Uptr_sub :: "nat \<Rightarrow> nat \<Rightarrow> nat" where
  "Uptr_sub a b = nat ((int a - int b) mod 2 ^ 64)"

definition outerStackSizeOfInnermost :: "EmitFunctionContext \<Rightarrow> nat" where
  "outerStackSizeOfInnermost s =
     (if controlStack s \<noteq> [] then outerStackSize (last (controlStack s)) else 0)"

definition pop :: "EmitFunctionContext \<Rightarrow> (Value \<times> EmitFunctionContext) option" where
  "pop s =
     (if Uptr_sub (length (stack s)) (outerStackSizeOfInnermost s) \<ge> 1 \<and> stack s \<noteq> []
      then Some (last (stack s), s\<lparr>stack := butlast (stack s)\<rparr>)
      else None)"

definition popMultiple :: "nat \<Rightarrow> EmitFunctionContext \<Rightarrow> (Value list \<times> EmitFunctionContext) option" where
  "popMultiple num s =
     (if Uptr_sub (length (stack s)) (outerStackSizeOfInnermost s) \<ge> num \<and> num \<le> length (stack s)
      then Some (drop (length (stack s) - num) (stack s),
                 s\<lparr>stack := take (length (stack s) - num) (stack s)\<rparr>)
      else None)"

definition getValueFromTop :: "nat \<Rightarrow> EmitFunctionContext \<Rightarrow> Value option" where
  "getValueFromTop offset s =
     (if offset < length (stack s) then Some (stack s ! (length (stack s) - offset - 1)) else None)"

definition push :: "Value \<Rightarrow> EmitFunctionContext \<Rightarrow> EmitFunctionContext" where
  "push v s = s\<lparr>stack := stack s @ [v]\<rparr>"

definition pushMultiple :: "Value list \<Rightarrow> EmitFunctionContext \<Rightarrow> EmitFunctionContext" where
  "pushMultiple vs s = foldl (\<lambda>s' v. push v s') s vs"

section \<open>Traps\<close>

record FunctionType =
  results :: "ValueType list"
  params :: "ValueType list"

definition FunctionType_void :: FunctionType where
  "FunctionType_void = \<lparr>results = [], params = []\<rparr>"

definition getInnermostUnwindToBlock :: "EmitFunctionContext \<Rightarrow> nat option" where
  "getInnermostUnwindToBlock s =
     (if tryStack s \<noteq> [] then Some (unwindToBlock (last (tryStack s))) else None)"

text \<open>\<^verbatim>\<open>emitRuntimeIntrinsic\<close> ends in \<^verbatim>\<open>emitCallOrInvoke\<close> (declared in
  \<^verbatim>\<open>LLVMJIT.h\<close>): a call of the named intrinsic, an invoke when there is a block to unwind
  to; the values returned are the call's results.\<close>

definition emitRuntimeIntrinsic ::
  "string \<Rightarrow> FunctionType \<Rightarrow> Value list \<Rightarrow> EmitFunctionContext \<Rightarrow> Value list \<times> EmitFunctionContext" where
  "emitRuntimeIntrinsic intrinsicName intrinsicType args s =
     (let (v, s') = Insert (case results intrinsicType of [] \<Rightarrow> llvmVoidType | t # _ \<Rightarrow> asLLVMType t)
                      (CallIntrinsic intrinsicName args (getInnermostUnwindToBlock s)) s
      in (if results intrinsicType = [] then [] else [v], s'))"

definition emitConditionalTrapIntrinsic ::
  "Value \<Rightarrow> string \<Rightarrow> FunctionType \<Rightarrow> Value list \<Rightarrow> EmitFunctionContext \<Rightarrow> EmitFunctionContext" where
  "emitConditionalTrapIntrinsic booleanCondition intrinsicName intrinsicType args s =
     (let (trueBlock, s1) = BasicBlock_Create (intrinsicName @ ''Trap'') s;
          (endBlock, s2) = BasicBlock_Create (intrinsicName @ ''Skip'') s1;
          s3 = CreateCondBr booleanCondition trueBlock endBlock likelyFalseBranchWeights s2;
          s4 = SetInsertPoint trueBlock s3;
          (r, s5) = emitRuntimeIntrinsic intrinsicName intrinsicType args s4;
          s6 = CreateUnreachable s5
      in SetInsertPoint endBlock s6)"

definition trapDivideByZero :: "ValueType \<Rightarrow> Value \<Rightarrow> EmitFunctionContext \<Rightarrow> EmitFunctionContext" where
  "trapDivideByZero ty divisor s =
     (let (c, s1) = CreateICmp ICMP_EQ divisor (typedZeroConstants ty) s
      in emitConditionalTrapIntrinsic c ''divideByZeroOrIntegerOverflowTrap'' FunctionType_void [] s1)"

definition literal_INT_MIN :: "ValueType \<Rightarrow> Value" where
  "literal_INT_MIN ty = (if ty = i32 then emitLiteral_U32 0x80000000
                         else emitLiteral_U64 0x8000000000000000)"

definition literal_minus1 :: "ValueType \<Rightarrow> Value" where
  "literal_minus1 ty = (if ty = i32 then emitLiteral_U32 (- 1) else emitLiteral_U64 (- 1))"

text \<open>Traps on \<open>x / 0\<close> or \<open>INT_MIN / -1\<close>.\<close>

definition trapDivideByZeroOrIntegerOverflow ::
  "ValueType \<Rightarrow> Value \<Rightarrow> Value \<Rightarrow> EmitFunctionContext \<Rightarrow> EmitFunctionContext" where
  "trapDivideByZeroOrIntegerOverflow ty left right s =
     (let (c1, s1) = CreateICmp ICMP_EQ left (literal_INT_MIN ty) s;
          (c2, s2) = CreateICmp ICMP_EQ right (literal_minus1 ty) s1;
          (c3, s3) = CreateBinOp And c1 c2 s2;
          (c4, s4) = CreateICmp ICMP_EQ right (typedZeroConstants ty) s3;
          (c5, s5) = CreateBinOp Or c3 c4 s4
      in emitConditionalTrapIntrinsic c5 ''divideByZeroOrIntegerOverflowTrap'' FunctionType_void [] s5)"

section \<open>Integer operators\<close>

text \<open>\<^verbatim>\<open>EMIT_BINARY_OP\<close>: pop the right operand, then the left one, and push what
  \<open>emitCode\<close> computes from them.\<close>

definition EMIT_BINARY_OP ::
  "ValueType \<Rightarrow> (ValueType \<Rightarrow> Value \<Rightarrow> Value \<Rightarrow> EmitFunctionContext \<Rightarrow> (Value \<times> EmitFunctionContext) option)
     \<Rightarrow> EmitFunctionContext \<Rightarrow> EmitFunctionContext option" where
  "EMIT_BINARY_OP ty emitCode s = do {
     (right, s1) \<leftarrow> pop s;
     (left, s2) \<leftarrow> pop s1;
     (v, s3) \<leftarrow> emitCode ty left right s2;
     Some (push v s3)
   }"

definition EMIT_UNARY_OP ::
  "ValueType \<Rightarrow> (ValueType \<Rightarrow> Value \<Rightarrow> EmitFunctionContext \<Rightarrow> (Value \<times> EmitFunctionContext) option)
     \<Rightarrow> EmitFunctionContext \<Rightarrow> EmitFunctionContext option" where
  "EMIT_UNARY_OP ty emitCode s = do {
     (operand, s1) \<leftarrow> pop s;
     (v, s2) \<leftarrow> emitCode ty operand s1;
     Some (push v s2)
   }"

definition emitSRem ::
  "ValueType \<Rightarrow> Value \<Rightarrow> Value \<Rightarrow> EmitFunctionContext \<Rightarrow> (Value \<times> EmitFunctionContext) option" where
  "emitSRem ty left right s = do {
     let s1 = trapDivideByZero ty right s;
     let preOverflowBlock = GetInsertBlock s1;
     let (noOverflowBlock, s2) = BasicBlock_Create ''sremNoOverflow'' s1;
     let (endBlock, s3) = BasicBlock_Create ''sremEnd'' s2;
     let (n1, s4) = CreateICmp ICMP_NE left (literal_INT_MIN ty) s3;
     let (n2, s5) = CreateICmp ICMP_NE right (literal_minus1 ty) s4;
     let (noOverflow, s6) = CreateBinOp Or n1 n2 s5;
     let s7 = CreateCondBr noOverflow noOverflowBlock endBlock likelyTrueBranchWeights s6;
     let s8 = SetInsertPoint noOverflowBlock s7;
     let (noOverflowValue, s9) = CreateBinOp SRem left right s8;
     let s10 = CreateBr endBlock s9;
     let s11 = SetInsertPoint endBlock s10;
     let (phi, s12) = CreatePHI (asLLVMType ty) s11;
     s13 \<leftarrow> addIncoming phi (typedZeroConstants ty) preOverflowBlock s12;
     s14 \<leftarrow> addIncoming phi noOverflowValue (Some noOverflowBlock) s13;
     Some (Inst phi, s14)
   }"

definition emit_div_s ::
  "ValueType \<Rightarrow> Value \<Rightarrow> Value \<Rightarrow> EmitFunctionContext \<Rightarrow> (Value \<times> EmitFunctionContext) option" where
  "emit_div_s ty left right s =
     Some (CreateBinOp SDiv left right (trapDivideByZeroOrIntegerOverflow ty left right s))"

definition i32_div_s :: "EmitFunctionContext \<Rightarrow> EmitFunctionContext option" where
  "i32_div_s = EMIT_BINARY_OP i32 emit_div_s"

definition i64_div_s :: "EmitFunctionContext \<Rightarrow> EmitFunctionContext option" where
  "i64_div_s = EMIT_BINARY_OP i64 emit_div_s"

definition i32_rem_s :: "EmitFunctionContext \<Rightarrow> EmitFunctionContext option" where
  "i32_rem_s = EMIT_BINARY_OP i32 emitSRem"

definition i64_rem_s :: "EmitFunctionContext \<Rightarrow> EmitFunctionContext option" where
  "i64_rem_s = EMIT_BINARY_OP i64 emitSRem"

text \<open>The two operators that \<^verbatim>\<open>EMIT_INT_BINARY_OP\<close> declares for one name, by operand
  type.\<close>

definition div_s :: "ValueType \<Rightarrow> EmitFunctionContext \<Rightarrow> EmitFunctionContext option" where
  "div_s ty = (if ty = i32 then i32_div_s else i64_div_s)"

definition rem_s :: "ValueType \<Rightarrow> EmitFunctionContext \<Rightarrow> EmitFunctionContext option" where
  "rem_s ty = (if ty = i32 then i32_rem_s else i64_rem_s)"

section \<open>Load and store operators\<close>

text \<open>Converts a memory operation's I32 address operand to an LLVM pointer.
  The 32-bit address is zero-extended to 64 bits, the offset is added when it is not zero;
  with a 64-bit address space there is no bounds check.\<close>

definition zext :: "Value \<Rightarrow> llvm_type \<Rightarrow> EmitFunctionContext \<Rightarrow> Value \<times> EmitFunctionContext" where
  "zext v ty s = CreateCast ZExt v ty s"

definition sext :: "Value \<Rightarrow> llvm_type \<Rightarrow> EmitFunctionContext \<Rightarrow> Value \<times> EmitFunctionContext" where
  "sext v ty s = CreateCast SExt v ty s"

definition trunc :: "Value \<Rightarrow> llvm_type \<Rightarrow> EmitFunctionContext \<Rightarrow> Value \<times> EmitFunctionContext" where
  "trunc v ty s = CreateCast Trunc v ty s"

definition identity :: "Value \<Rightarrow> llvm_type \<Rightarrow> EmitFunctionContext \<Rightarrow> Value \<times> EmitFunctionContext" where
  "identity v ty s = (v, s)"

definition coerceByteIndexToPointer ::
  "Value \<Rightarrow> 32 word \<Rightarrow> llvm_type \<Rightarrow> EmitFunctionContext \<Rightarrow> Value \<times> EmitFunctionContext" where
  "coerceByteIndexToPointer byteIndex offset memoryType s =
     (let (byteIndex1, s1) = zext byteIndex llvmI64Type s;
          (byteIndex2, s2) =
            (if offset \<noteq> 0
             then (let (off, t) = zext (emitLiteral_U32 offset) llvmI64Type s1
                   in CreateBinOp Add byteIndex1 off t)
             else (byteIndex1, s1));
          (base, s3) = CreateLoad (memoryBasePointerVariable s2) s2;
          (bytePointer, s4) = CreateInBoundsGEP base [byteIndex2] s3
      in CreateCast PointerCast bytePointer (PointerTo memoryType) s4)"

record LoadOrStoreImm =
  alignmentLog2 :: nat
  offset :: "32 word"

text \<open>The conversion between the value on the operand stack and the value in memory that an
  operator is declared with.\<close>

datatype ConversionOp = Conv_identity | Conv_sext | Conv_zext | Conv_trunc

fun conversionOp :: "ConversionOp \<Rightarrow> Value \<Rightarrow> llvm_type \<Rightarrow> EmitFunctionContext \<Rightarrow> Value \<times> EmitFunctionContext" where
  "conversionOp Conv_identity = identity"
| "conversionOp Conv_sext = sext"
| "conversionOp Conv_zext = zext"
| "conversionOp Conv_trunc = trunc"

definition EMIT_LOAD_OP ::
  "ValueType \<Rightarrow> llvm_type \<Rightarrow> ConversionOp \<Rightarrow> LoadOrStoreImm \<Rightarrow> EmitFunctionContext
     \<Rightarrow> EmitFunctionContext option" where
  "EMIT_LOAD_OP valueTypeId llvmMemoryType conv imm s = do {
     (byteIndex, s1) \<leftarrow> pop s;
     let (pointer, s2) = coerceByteIndexToPointer byteIndex (offset imm) llvmMemoryType s1;
     let (load, s3) = CreateLoad pointer s2;
     let s4 = setAlignment load (2 ^ alignmentLog2 imm) s3;
     let s5 = setVolatile load True s4;
     let (v, s6) = conversionOp conv load (asLLVMType valueTypeId) s5;
     Some (push v s6)
   }"

text \<open>The memory type of \<^verbatim>\<open>v128.store\<close> is the type of the value stored, so the memory
  type of a store is given as a function of the state and the value.\<close>

definition EMIT_STORE_OP ::
  "(EmitFunctionContext \<Rightarrow> Value \<Rightarrow> llvm_type) \<Rightarrow> ConversionOp \<Rightarrow> LoadOrStoreImm \<Rightarrow> EmitFunctionContext
     \<Rightarrow> EmitFunctionContext option" where
  "EMIT_STORE_OP llvmMemoryType conv imm s = do {
     (val, s1) \<leftarrow> pop s;
     (byteIndex, s2) \<leftarrow> pop s1;
     let (pointer, s3) = coerceByteIndexToPointer byteIndex (offset imm) (llvmMemoryType s2 val) s2;
     let (memoryValue, s4) = conversionOp conv val (llvmMemoryType s2 val) s3;
     let (store, s5) = CreateStore memoryValue pointer s4;
     let s6 = setVolatile store True s5;
     Some (setAlignment store (2 ^ alignmentLog2 imm) s6)
   }"

definition trapIfMisalignedAtomic :: "Value \<Rightarrow> nat \<Rightarrow> EmitFunctionContext \<Rightarrow> EmitFunctionContext" where
  "trapIfMisalignedAtomic address naturalAlignmentLog2 s =
     (if naturalAlignmentLog2 > 0
      then (let (m, s1) = CreateBinOp And address
                            (emitLiteral_U32 (push_bit naturalAlignmentLog2 1 - 1)) s;
                (c, s2) = CreateICmp ICMP_NE (typedZeroConstants i32) m s1
            in emitConditionalTrapIntrinsic c ''misalignedAtomicTrap''
                 \<lparr>results = [], params = [i32]\<rparr> [address] s2)
      else s)"

definition EMIT_ATOMIC_LOAD_OP ::
  "ValueType \<Rightarrow> llvm_type \<Rightarrow> nat \<Rightarrow> ConversionOp \<Rightarrow> LoadOrStoreImm \<Rightarrow> EmitFunctionContext
     \<Rightarrow> EmitFunctionContext option" where
  "EMIT_ATOMIC_LOAD_OP valueTypeId llvmMemoryType naturalAlignmentLog2 conv imm s = do {
     (byteIndex, s1) \<leftarrow> pop s;
     let s2 = trapIfMisalignedAtomic byteIndex naturalAlignmentLog2 s1;
     let (pointer, s3) = coerceByteIndexToPointer byteIndex (offset imm) llvmMemoryType s2;
     let (load, s4) = CreateLoad pointer s3;
     let s5 = setAlignment load (2 ^ alignmentLog2 imm) s4;
     let s6 = setVolatile load True s5;
     let s7 = setAtomic load s6;
     let (v, s8) = conversionOp conv load (asLLVMType valueTypeId) s7;
     Some (push v s8)
   }"

definition EMIT_ATOMIC_STORE_OP ::
  "llvm_type \<Rightarrow> nat \<Rightarrow> ConversionOp \<Rightarrow> LoadOrStoreImm \<Rightarrow> EmitFunctionContext
     \<Rightarrow> EmitFunctionContext option" where
  "EMIT_ATOMIC_STORE_OP llvmMemoryType naturalAlignmentLog2 conv imm s = do {
     (val, s1) \<leftarrow> pop s;
     (byteIndex, s2) \<leftarrow> pop s1;
     let s3 = trapIfMisalignedAtomic byteIndex naturalAlignmentLog2 s2;
     let (pointer, s4) = coerceByteIndexToPointer byteIndex (offset imm) llvmMemoryType s3;
     let (memoryValue, s5) = conversionOp conv val llvmMemoryType s4;
     let (store, s6) = CreateStore memoryValue pointer s5;
     let s7 = setVolatile store True s6;
     let s8 = setAlignment store (2 ^ alignmentLog2 imm) s7;
     Some (setAtomic store s8)
   }"

text \<open>Some of the operators that the four macros declare.\<close>

definition i32_load8_s :: "LoadOrStoreImm \<Rightarrow> EmitFunctionContext \<Rightarrow> EmitFunctionContext option" where
  "i32_load8_s = EMIT_LOAD_OP i32 llvmI8Type Conv_sext"

definition i32_load :: "LoadOrStoreImm \<Rightarrow> EmitFunctionContext \<Rightarrow> EmitFunctionContext option" where
  "i32_load = EMIT_LOAD_OP i32 llvmI32Type Conv_identity"

definition i64_load32_u :: "LoadOrStoreImm \<Rightarrow> EmitFunctionContext \<Rightarrow> EmitFunctionContext option" where
  "i64_load32_u = EMIT_LOAD_OP i64 llvmI32Type Conv_zext"

definition v128_load :: "LoadOrStoreImm \<Rightarrow> EmitFunctionContext \<Rightarrow> EmitFunctionContext option" where
  "v128_load = EMIT_LOAD_OP v128 llvmI64x2Type Conv_identity"

definition i32_store :: "LoadOrStoreImm \<Rightarrow> EmitFunctionContext \<Rightarrow> EmitFunctionContext option" where
  "i32_store = EMIT_STORE_OP (\<lambda>s v. llvmI32Type) Conv_trunc"

definition i64_store8 :: "LoadOrStoreImm \<Rightarrow> EmitFunctionContext \<Rightarrow> EmitFunctionContext option" where
  "i64_store8 = EMIT_STORE_OP (\<lambda>s v. llvmI8Type) Conv_trunc"

definition v128_store :: "LoadOrStoreImm \<Rightarrow> EmitFunctionContext \<Rightarrow> EmitFunctionContext option" where
  "v128_store = EMIT_STORE_OP getType Conv_identity"

definition i32_atomic_load :: "LoadOrStoreImm \<Rightarrow> EmitFunctionContext \<Rightarrow> EmitFunctionContext option" where
  "i32_atomic_load = EMIT_ATOMIC_LOAD_OP i32 llvmI32Type 2 Conv_identity"

definition i64_atomic_store16 :: "LoadOrStoreImm \<Rightarrow> EmitFunctionContext \<Rightarrow> EmitFunctionContext option" where
  "i64_atomic_store16 = EMIT_ATOMIC_STORE_OP llvmI16Type 1 Conv_trunc"

text \<open>The four macros as one emitter, by kind of operator.\<close>

datatype MemoryOperator =
    LoadOperator ValueType llvm_type ConversionOp
  | StoreOperator "EmitFunctionContext \<Rightarrow> Value \<Rightarrow> llvm_type" ConversionOp
  | AtomicLoadOperator ValueType llvm_type nat ConversionOp
  | AtomicStoreOperator llvm_type nat ConversionOp

fun emitMemoryOperator ::
  "MemoryOperator \<Rightarrow> LoadOrStoreImm \<Rightarrow> EmitFunctionContext \<Rightarrow> EmitFunctionContext option" where
  "emitMemoryOperator (LoadOperator vt mt conv) = EMIT_LOAD_OP vt mt conv"
| "emitMemoryOperator (StoreOperator mt conv) = EMIT_STORE_OP mt conv"
| "emitMemoryOperator (AtomicLoadOperator vt mt al conv) = EMIT_ATOMIC_LOAD_OP vt mt al conv"
| "emitMemoryOperator (AtomicStoreOperator mt al conv) = EMIT_ATOMIC_STORE_OP mt al conv"

section \<open>Notions used to state the properties\<close>

text \<open>An operand that the emitter can meet on its stack refers to no instruction that is yet
  to be created.\<close>

definition valid_operand :: "EmitFunctionContext \<Rightarrow> Value \<Rightarrow> bool" where
  "valid_operand s v = (case v of Inst n \<Rightarrow> n < numInsts s | _ \<Rightarrow> True)"

text \<open>The run-time integer of type \<open>ty\<close> (\<open>i32\<close> or \<open>i64\<close>) whose two's-complement
  reading is \<open>n\<close>, the least signed integer of the type, and the signed range.\<close>

definition int_value :: "ValueType \<Rightarrow> int \<Rightarrow> rval" where
  "int_value ty n = (if ty = i32 then VI32 (word_of_int n) else VI64 (word_of_int n))"

definition INT_MIN :: "ValueType \<Rightarrow> int" where
  "INT_MIN ty = (if ty = i32 then - (2 ^ 31) else - (2 ^ 63))"

definition in_signed_range :: "ValueType \<Rightarrow> int \<Rightarrow> bool" where
  "in_signed_range ty n = (INT_MIN ty \<le> n \<and> n < - INT_MIN ty)"

text \<open>The code that an operator has appended to the block \<open>b\<close> that was the insertion block
  when the operator was emitted in state \<open>s\<close>, giving state \<open>s'\<close>; running the emitted
  code starts there.\<close>

definition emitted :: "EmitFunctionContext \<Rightarrow> EmitFunctionContext \<Rightarrow> nat \<Rightarrow> nat list" where
  "emitted s s' b = drop (length (blocks s b)) (blocks s' b)"

text \<open>For a memory operator: whether it stores, the type that a loaded value is converted
  to or a stored value is converted to, its conversion, and the natural alignment that an atomic
  operator checks (0 for the others).\<close>

fun isStore :: "MemoryOperator \<Rightarrow> bool" where
  "isStore (LoadOperator vt mt conv) = False"
| "isStore (StoreOperator mt conv) = True"
| "isStore (AtomicLoadOperator vt mt al conv) = False"
| "isStore (AtomicStoreOperator mt al conv) = True"

fun conversionOf :: "MemoryOperator \<Rightarrow> ConversionOp" where
  "conversionOf (LoadOperator vt mt conv) = conv"
| "conversionOf (StoreOperator mt conv) = conv"
| "conversionOf (AtomicLoadOperator vt mt al conv) = conv"
| "conversionOf (AtomicStoreOperator mt al conv) = conv"

fun convertedType :: "MemoryOperator \<Rightarrow> EmitFunctionContext \<Rightarrow> Value \<Rightarrow> llvm_type" where
  "convertedType (LoadOperator vt mt conv) s v = asLLVMType vt"
| "convertedType (StoreOperator mt conv) s v = mt s v"
| "convertedType (AtomicLoadOperator vt mt al conv) s v = asLLVMType vt"
| "convertedType (AtomicStoreOperator mt al conv) s v = mt"

fun checkedAlignmentLog2 :: "MemoryOperator \<Rightarrow> nat" where
  "checkedAlignmentLog2 (AtomicLoadOperator vt mt al conv) = al"
| "checkedAlignmentLog2 (AtomicStoreOperator mt al conv) = al"
| "checkedAlignmentLog2 _ = 0"

text \<open>What a conversion does to a run-time value.\<close>

definition convert_rval :: "ConversionOp \<Rightarrow> rval \<Rightarrow> llvm_type \<Rightarrow> rval option" where
  "convert_rval conv v ty = (case conv of
      Conv_identity \<Rightarrow> Some v
    | Conv_sext \<Rightarrow> eval_cast SExt v ty
    | Conv_zext \<Rightarrow> eval_cast ZExt v ty
    | Conv_trunc \<Rightarrow> eval_cast Trunc v ty)"

text \<open>A function context to try the operators in: no control frame yet, one block \<open>entry\<close>
  to insert into, no instruction created, and the given values on the operand stack.\<close>

definition sample_context :: "Value list \<Rightarrow> EmitFunctionContext" where
  "sample_context operands =
     \<lparr>controlStack = [], branchTargetStack = [], stack = operands, tryStack = [], catchStack = [],
      insts = Map.empty, numInsts = 0, blocks = (\<lambda>b. []), blockNames = [''entry''], layout = [0],
      insertBlock = Some 0, argumentTypes = [], memoryBasePointerVariable = Argument 0\<rparr>"

section \<open>Properties\<close>

subsection \<open>Signed division on words\<close>

lemma sdiv_bounds:
  fixes a c :: int
  assumes "- (2 ^ n) \<le> a" "a < 2 ^ n" "c \<noteq> 0" "\<not> (a = - (2 ^ n) \<and> c = - 1)"
  shows "- (2 ^ n) \<le> a sdiv c \<and> a sdiv c < 2 ^ n"
proof -
  have le: "\<bar>a\<bar> div \<bar>c\<bar> \<le> \<bar>a\<bar>"
    by (cases "a = 0") (auto intro: int_div_le_self)
  have nn: "0 \<le> \<bar>a\<bar> div \<bar>c\<bar>"
    by (simp add: pos_imp_zdiv_nonneg_iff assms(3))
  have absa: "\<bar>a\<bar> \<le> 2 ^ n" using assms(1,2) by auto
  consider (z) "a = 0" | (pp) "0 < a" "0 < c" | (pn) "0 < a" "c < 0" | (np) "a < 0" "0 < c"
    | (nn) "a < 0" "c < 0"
    using assms(3) by linarith
  then show ?thesis
  proof cases
    case z then show ?thesis by simp
  next
    case pp
    then have "a sdiv c = \<bar>a\<bar> div \<bar>c\<bar>" by (simp add: signed_divide_int_def)
    with le nn pp assms show ?thesis by auto
  next
    case pn
    then have "a sdiv c = - (\<bar>a\<bar> div \<bar>c\<bar>)" by (simp add: signed_divide_int_def)
    with le nn pn assms show ?thesis by auto
  next
    case np
    then have "a sdiv c = - (\<bar>a\<bar> div \<bar>c\<bar>)" by (simp add: signed_divide_int_def)
    with le nn np assms absa show ?thesis by auto
  next
    case nn
    then have e: "a sdiv c = \<bar>a\<bar> div \<bar>c\<bar>" by (simp add: signed_divide_int_def)
    show ?thesis
    proof (cases "c = - 1")
      case True
      with assms(4) have "a \<noteq> - (2 ^ n)" by simp
      with assms(1) have "\<bar>a\<bar> < 2 ^ n" using nn by auto
      with e le \<open>0 \<le> \<bar>a\<bar> div \<bar>c\<bar>\<close> show ?thesis by auto
    next
      case False
      with nn have "1 < \<bar>c\<bar>" by auto
      moreover have "0 < \<bar>a\<bar>" using nn by auto
      ultimately have "\<bar>a\<bar> div \<bar>c\<bar> < \<bar>a\<bar>" by (intro int_div_less_self)
      with e absa \<open>0 \<le> \<bar>a\<bar> div \<bar>c\<bar>\<close> show ?thesis by auto
    qed
  qed
qed

subsection \<open>The effect of the builder on the emitter state\<close>

lemma typeOf_upd_same [simp]: "typeOf (f(n \<mapsto> (ty, i))) ats (Inst n) = ty"
  by (simp add: typeOf_def)

lemma typeOf_upd_other [simp]: "v \<noteq> Inst n \<Longrightarrow> typeOf (f(n \<mapsto> x)) ats v = typeOf f ats v"
  by (cases v) (simp_all add: typeOf_def)

lemma valid_operand_neq: "valid_operand s v \<Longrightarrow> numInsts s \<le> n \<Longrightarrow> v \<noteq> Inst n"
  by (auto simp: valid_operand_def)

lemma operand_upd_valid:
  "valid_operand s v \<Longrightarrow> numInsts s \<le> n \<Longrightarrow> operand (\<rho>(Inst n \<mapsto> x)) v = operand \<rho> v"
  by (cases v) (auto simp: valid_operand_def)

lemma getInnermostUnwindToBlock_upd [simp]:
  "getInnermostUnwindToBlock (s\<lparr>numInsts := n\<rparr>) = getInnermostUnwindToBlock s"
  "getInnermostUnwindToBlock (s\<lparr>blocks := bl\<rparr>) = getInnermostUnwindToBlock s"
  "getInnermostUnwindToBlock (s\<lparr>stack := st\<rparr>) = getInnermostUnwindToBlock s"
  "getInnermostUnwindToBlock (s\<lparr>blockNames := bn\<rparr>) = getInnermostUnwindToBlock s"
  "getInnermostUnwindToBlock (s\<lparr>layout := ly\<rparr>) = getInnermostUnwindToBlock s"
  "getInnermostUnwindToBlock (s\<lparr>insertBlock := ib\<rparr>) = getInnermostUnwindToBlock s"
  "getInnermostUnwindToBlock (s\<lparr>insts := f\<rparr>) = getInnermostUnwindToBlock s"
  by (simp_all add: getInnermostUnwindToBlock_def)

lemma Uptr_sub_le: "b \<le> a \<Longrightarrow> a < 2 ^ 64 \<Longrightarrow> Uptr_sub a b = a - b"
  unfolding Uptr_sub_def
  by (subst mod_pos_pos_trivial) auto

lemma outerStackSizeOfInnermost_stack [simp]:
  "outerStackSizeOfInnermost (s\<lparr>stack := xs\<rparr>) = outerStackSizeOfInnermost s"
  by (simp add: outerStackSizeOfInnermost_def)

lemma pop_snoc:
  "stack s = xs @ [v] \<Longrightarrow> outerStackSizeOfInnermost s \<le> length xs \<Longrightarrow> length xs < 2 ^ 63
   \<Longrightarrow> pop s = Some (v, s\<lparr>stack := xs\<rparr>)"
  by (simp add: pop_def Uptr_sub_le)

lemma Insert_eq:
  "insertBlock s = Some b \<Longrightarrow> Insert ty i s =
     (Inst (numInsts s),
      s\<lparr>insts := (insts s)(numInsts s \<mapsto> (ty, i)), numInsts := Suc (numInsts s),
        blocks := (blocks s)(b := blocks s b @ [numInsts s])\<rparr>)"
  by (simp add: Insert_def)

lemma emitConditionalTrapIntrinsic_eq:
  assumes "insertBlock s = Some b" "b < length (blockNames s)" "results fty = []"
  shows "emitConditionalTrapIntrinsic c name fty args s =
     s\<lparr>blockNames := blockNames s @ [name @ ''Trap'', name @ ''Skip''],
       layout := layout s @ [length (blockNames s), Suc (length (blockNames s))],
       insts := (insts s)
         (numInsts s \<mapsto> (llvmVoidType, CondBr c (length (blockNames s)) (Suc (length (blockNames s))) likelyFalseBranchWeights),
          Suc (numInsts s) \<mapsto> (llvmVoidType, CallIntrinsic name args (getInnermostUnwindToBlock s)),
          Suc (Suc (numInsts s)) \<mapsto> (llvmVoidType, Unreachable)),
       numInsts := Suc (Suc (Suc (numInsts s))),
       blocks := (blocks s)
         (b := blocks s b @ [numInsts s],
          length (blockNames s) := [Suc (numInsts s), Suc (Suc (numInsts s))],
          Suc (length (blockNames s)) := []),
       insertBlock := Some (Suc (length (blockNames s)))\<rparr>"
  using assms
  by (simp add: 
      Insert_def emitConditionalTrapIntrinsic_def BasicBlock_Create_def
      CreateCondBr_def SetInsertPoint_def emitRuntimeIntrinsic_def CreateUnreachable_def 
      fun_upd_twist)

lemma results_FunctionType_void [simp]: "results FunctionType_void = []"
  by (simp add: FunctionType_void_def)

lemmas emit_simps = getType_def CreateICmp_def CreateBinOp_def CreateCast_def CreateSelect_def CreateFCmp_def
  Insert_eq emitConditionalTrapIntrinsic_eq

lemma sint_word_of_int_in_range:
  "- (2 ^ (LENGTH('a::len) - 1)) \<le> a \<Longrightarrow> a < 2 ^ (LENGTH('a) - 1)
   \<Longrightarrow> sint (word_of_int a :: 'a word) = a"
  by (simp add: sint_sbintrunc' signed_take_bit_int_eq_self)

lemma word_of_int_eq_iff_sint:
  "- (2 ^ (LENGTH('a::len) - 1)) \<le> a \<Longrightarrow> a < 2 ^ (LENGTH('a) - 1)
   \<Longrightarrow> ((word_of_int a :: 'a word) = w) = (a = sint w)"
  using sint_word_of_int_in_range[of a, where 'a='a] by (auto simp: signed_word_eqI)


lemma word_sdiv_of_int:
  "- (2 ^ (LENGTH('a::len) - 1)) \<le> a \<Longrightarrow> a < 2 ^ (LENGTH('a) - 1) \<Longrightarrow>
   - (2 ^ (LENGTH('a) - 1)) \<le> c \<Longrightarrow> c < 2 ^ (LENGTH('a) - 1) \<Longrightarrow>
   word_sdiv (word_of_int a :: 'a word) (word_of_int c) = word_of_int (a sdiv c)"
  by (simp add: word_sdiv_def sint_word_of_int_in_range)

lemma word_srem_of_int:
  "- (2 ^ (LENGTH('a::len) - 1)) \<le> a \<Longrightarrow> a < 2 ^ (LENGTH('a) - 1) \<Longrightarrow>
   - (2 ^ (LENGTH('a) - 1)) \<le> c \<Longrightarrow> c < 2 ^ (LENGTH('a) - 1) \<Longrightarrow>
   word_srem (word_of_int a :: 'a word) (word_of_int c) = word_of_int (a smod c)"
  by (simp add: word_srem_def sint_word_of_int_in_range)

lemma uint_ucast_32_64: "uint (ucast (i :: 32 word) :: 64 word) = uint i"
  by (simp add: uint_up_ucast is_up)

lemma uint_lt32: "uint (i :: 32 word) < 4294967296"
  using uint_bounded[of i] by simp

lemma sint_index_plus_offset:
  fixes i off :: "32 word"
  shows "sint (ucast i + ucast off :: 64 word) = int (unat i) + int (unat off)"
proof -
  have s: "uint (ucast i :: 64 word) + uint (ucast off :: 64 word) < 2 ^ LENGTH(64)"
    using uint_lt32[of i] uint_lt32[of off] by (simp add: uint_ucast_32_64)
  then have u: "uint (ucast i + ucast off :: 64 word) = uint i + uint off"
    by (simp add: uint_add_lem[THEN iffD1] uint_ucast_32_64)
  have "sint (ucast i + ucast off :: 64 word) = signed_take_bit 63 (uint i + uint off)"
    by (simp add: sint_uint u)
  also have "\<dots> = uint i + uint off"
  proof (rule signed_take_bit_int_eq_self)
    have "- (2 ^ 63) \<le> (0::int)" by simp
    also have "0 \<le> uint i + uint off" by simp
    finally show "- (2 ^ 63) \<le> uint i + uint off" .
    show "uint i + uint off < 2 ^ 63"
      using uint_lt32[of i] uint_lt32[of off] by simp
  qed
  finally show ?thesis by simp
qed

lemma sint_index:
  fixes i :: "32 word"
  shows "sint (ucast i :: 64 word) = int (unat i)"
  using sint_index_plus_offset[of i 0] by simp

subsection \<open>Signed division\<close>

lemma div_s_emitted:
  assumes ty: "ty = i32 \<or> ty = i64"
    and st: "stack s = st @ [l, r]"
    and base: "outerStackSizeOfInnermost s \<le> length st" "length st < 2 ^ 62"
    and ib: "insertBlock s = Some b" "b < length (blockNames s)"
    and valid: "valid_operand s l" "valid_operand s r"
  defines "n \<equiv> numInsts s" and "B \<equiv> length (blockNames s)"
  shows "\<exists>s'. div_s ty s = Some s' \<and> stack s' = st @ [Inst (n + 8)] \<and> insertBlock s' = Some (Suc B)
     \<and> blocks s' b = blocks s b @ [n, n + 1, n + 2, n + 3, n + 4, n + 5]
     \<and> blocks s' B = [n + 6, n + 7]
     \<and> blocks s' (Suc B) = [n + 8]
     \<and> insts s' n = Some (llvmI1Type, ICmp ICMP_EQ l (literal_INT_MIN ty))
     \<and> insts s' (n + 1) = Some (llvmI1Type, ICmp ICMP_EQ r (literal_minus1 ty))
     \<and> insts s' (n + 2) = Some (llvmI1Type, BinaryOperator And (Inst n) (Inst (n + 1)))
     \<and> insts s' (n + 3) = Some (llvmI1Type, ICmp ICMP_EQ r (typedZeroConstants ty))
     \<and> insts s' (n + 4) = Some (llvmI1Type, BinaryOperator Or (Inst (n + 2)) (Inst (n + 3)))
     \<and> insts s' (n + 5) = Some (llvmVoidType, CondBr (Inst (n + 4)) B (Suc B) likelyFalseBranchWeights)
     \<and> insts s' (n + 6) = Some (llvmVoidType, CallIntrinsic ''divideByZeroOrIntegerOverflowTrap'' [] (getInnermostUnwindToBlock s))
     \<and> insts s' (n + 7) = Some (llvmVoidType, Unreachable)
     \<and> insts s' (n + 8) = Some (getType s l, BinaryOperator SDiv l r)"
proof -
  have p1: "pop s = Some (r, s\<lparr>stack := st @ [l]\<rparr>)"
    using st base by (intro pop_snoc) auto
  have p2: "pop (s\<lparr>stack := st @ [l]\<rparr>) = Some (l, s\<lparr>stack := st\<rparr>)"
    using st base pop_snoc[of "s\<lparr>stack := st @ [l]\<rparr>" st l] by auto
  have neq: "l \<noteq> Inst (Suc (Suc (Suc (Suc (Suc (Suc (Suc (numInsts s))))))))"
       "l \<noteq> Inst (Suc (Suc (Suc (Suc (Suc (Suc (numInsts s)))))))"
       "l \<noteq> Inst (Suc (Suc (Suc (Suc (Suc (numInsts s))))))"
       "l \<noteq> Inst (Suc (Suc (Suc (Suc (numInsts s)))))"
       "l \<noteq> Inst (Suc (Suc (Suc (numInsts s))))"
       "l \<noteq> Inst (Suc (Suc (numInsts s)))"
       "l \<noteq> Inst (Suc (numInsts s))"
       "l \<noteq> Inst (numInsts s)"
    using valid(1) by (auto simp: valid_operand_def)
  show ?thesis
    using ib ty neq
    by (auto simp add: div_s_def i32_div_s_def i64_div_s_def EMIT_BINARY_OP_def p1 p2 emit_div_s_def
        trapDivideByZeroOrIntegerOverflow_def emit_simps push_def n_def B_def)
qed

text \<open>
  C2. For \<^verbatim>\<open>i32.div_s\<close> and \<^verbatim>\<open>i64.div_s\<close>: running the emitted code on a dividend \<open>x\<close> and
  a divisor \<open>y\<close> ends in a call of \<^verbatim>\<open>divideByZeroOrIntegerOverflowTrap\<close>, before any division
  is executed, if and only if \<open>y = 0\<close>, or \<open>x\<close> is the least integer of the type and \<open>y = -1\<close>;
  otherwise it goes on past the operator with the exact signed quotient (rounded towards zero,
  and within the signed range of the type) as the value pushed on the operand stack. In
  particular \<open>INT32_MIN / -1\<close> traps and does not wrap.
\<close>

theorem div_s_traps_iff_zero_or_overflow:
  assumes ty: "ty = i32 \<or> ty = i64"
    and st: "stack s = st @ [l, r]"
    and base: "outerStackSizeOfInnermost s \<le> length st" "length st < 2 ^ 62"
    and ib: "insertBlock s = Some b" "b < length (blockNames s)"
    and valid: "valid_operand s l" "valid_operand s r"
    and ops: "operand \<rho> l = Some (int_value ty x)" "operand \<rho> r = Some (int_value ty y)"
    and range: "in_signed_range ty x" "in_signed_range ty y"
  shows "\<exists>s' v blk. div_s ty s = Some s' \<and> stack s' = st @ [v] \<and> insertBlock s' = Some blk \<and>
     (\<forall>fuel prev h.
        (y = 0 \<or> (x = INT_MIN ty \<and> y = - 1) \<longrightarrow>
           exec (Suc fuel) s' prev b \<rho> h (emitted s s' b)
             = Trapped ''divideByZeroOrIntegerOverflowTrap'' []) \<and>
        (\<not> (y = 0 \<or> (x = INT_MIN ty \<and> y = - 1)) \<longrightarrow>
           (\<exists>\<rho>'. exec (Suc fuel) s' prev b \<rho> h (emitted s s' b) = FellThrough blk \<rho>' h
              \<and> operand \<rho>' v = Some (int_value ty (x sdiv y))
              \<and> in_signed_range ty (x sdiv y))))"
proof -
  from div_s_emitted[OF ty st base ib valid]
  obtain s' where s': "div_s ty s = Some s'" "stack s' = st @ [Inst (numInsts s + 8)]"
     "insertBlock s' = Some (Suc (length (blockNames s)))"
     "blocks s' b = blocks s b @ [numInsts s, Suc (numInsts s), Suc (Suc (numInsts s)), numInsts s + 3, numInsts s + 4, numInsts s + 5]"
     "blocks s' (length (blockNames s)) = [numInsts s + 6, numInsts s + 7]"
     "blocks s' (Suc (length (blockNames s))) = [numInsts s + 8]"
     "insts s' (numInsts s) = Some (llvmI1Type, ICmp ICMP_EQ l (literal_INT_MIN ty))"
     "insts s' (Suc (numInsts s)) = Some (llvmI1Type, ICmp ICMP_EQ r (literal_minus1 ty))"
     "insts s' (Suc (Suc (numInsts s))) = Some (llvmI1Type, BinaryOperator And (Inst (numInsts s)) (Inst (Suc (numInsts s))))"
     "insts s' (numInsts s + 3) = Some (llvmI1Type, ICmp ICMP_EQ r (typedZeroConstants ty))"
     "insts s' (numInsts s + 4) = Some (llvmI1Type, BinaryOperator Or (Inst (Suc (Suc (numInsts s)))) (Inst (numInsts s + 3)))"
     "insts s' (numInsts s + 5) = Some (llvmVoidType, CondBr (Inst (numInsts s + 4)) (length (blockNames s)) (Suc (length (blockNames s))) likelyFalseBranchWeights)"
     "insts s' (numInsts s + 6) = Some (llvmVoidType, CallIntrinsic ''divideByZeroOrIntegerOverflowTrap'' [] (getInnermostUnwindToBlock s))"
     "insts s' (numInsts s + 7) = Some (llvmVoidType, Unreachable)"
     "insts s' (numInsts s + 8) = Some (getType s l, BinaryOperator SDiv l r)"
    by auto
  have nz: "y \<noteq> 0 \<Longrightarrow> \<not> (x = INT_MIN ty \<and> y = - 1) \<Longrightarrow> in_signed_range ty (x sdiv y)"
    using ty range sdiv_bounds[of 31 x y] sdiv_bounds[of 63 x y]
    by (auto simp: in_signed_range_def INT_MIN_def)
  note sem = emitted_def eval_inst_def literal_INT_MIN_def literal_minus1_def
         emitLiteral_U32_def emitLiteral_U64_def eval_icmp_def icmp_result_def
         operand_upd_valid[OF valid(1)] operand_upd_valid[OF valid(2)]
         eval_binop_def bool_binop_def word_binop_def isNonReturningIntrinsic_def
         int_value_def INT_MIN_def in_signed_range_def word_of_int_eq_iff_sint
         sint_word_of_int_in_range word_sdiv_of_int
  show ?thesis
    apply (rule exI[of _ s'])
    apply (rule exI[of _ "Inst (numInsts s + 8)"])
    apply (rule exI[of _ "Suc (length (blockNames s))"])
    using ty
  proof (elim disjE)
    assume t: "ty = i32"
    show "div_s ty s = Some s' \<and> stack s' = st @ [Inst (numInsts s + 8)] \<and> insertBlock s' = Some (Suc (length (blockNames s))) \<and>
     (\<forall>fuel prev h.
        (y = 0 \<or> (x = INT_MIN ty \<and> y = - 1) \<longrightarrow>
           exec (Suc fuel) s' prev b \<rho> h (emitted s s' b)
             = Trapped ''divideByZeroOrIntegerOverflowTrap'' []) \<and>
        (\<not> (y = 0 \<or> (x = INT_MIN ty \<and> y = - 1)) \<longrightarrow>
           (\<exists>\<rho>'. exec (Suc fuel) s' prev b \<rho> h (emitted s s' b) = FellThrough (Suc (length (blockNames s))) \<rho>' h
              \<and> operand \<rho>' (Inst (numInsts s + 8)) = Some (int_value ty (x sdiv y))
              \<and> in_signed_range ty (x sdiv y))))"
      using range[unfolded t] ops[unfolded t] nz[unfolded t] unfolding t
      by (auto simp add: s'[unfolded t] sem)
  next
    assume t: "ty = i64"
    show "div_s ty s = Some s' \<and> stack s' = st @ [Inst (numInsts s + 8)] \<and> insertBlock s' = Some (Suc (length (blockNames s))) \<and>
     (\<forall>fuel prev h.
        (y = 0 \<or> (x = INT_MIN ty \<and> y = - 1) \<longrightarrow>
           exec (Suc fuel) s' prev b \<rho> h (emitted s s' b)
             = Trapped ''divideByZeroOrIntegerOverflowTrap'' []) \<and>
        (\<not> (y = 0 \<or> (x = INT_MIN ty \<and> y = - 1)) \<longrightarrow>
           (\<exists>\<rho>'. exec (Suc fuel) s' prev b \<rho> h (emitted s s' b) = FellThrough (Suc (length (blockNames s))) \<rho>' h
              \<and> operand \<rho>' (Inst (numInsts s + 8)) = Some (int_value ty (x sdiv y))
              \<and> in_signed_range ty (x sdiv y))))"
      using range[unfolded t] ops[unfolded t] nz[unfolded t] unfolding t
      by (auto simp add: s'[unfolded t] sem)
  qed
qed

theorem div_s_traps_iff_zero_or_overflow_witness:
  "\<exists>s' v blk. div_s i32 (sample_context [Argument 1, Argument 2]) = Some s' \<and> stack s' = [v]
     \<and> insertBlock s' = Some blk
     \<and> (\<forall>fuel prev h.
          exec (Suc fuel) s' prev 0
            ((\<lambda>v. None)(Argument 1 \<mapsto> VI32 (word_of_int (- 2147483648)), Argument 2 \<mapsto> VI32 (word_of_int (- 1))))
            h (emitted (sample_context [Argument 1, Argument 2]) s' 0)
          = Trapped ''divideByZeroOrIntegerOverflowTrap'' [])"
  using div_s_traps_iff_zero_or_overflow [of i32 "sample_context [Argument 1, Argument 2]" "[]"
      "Argument 1" "Argument 2" 0
      "(\<lambda>v. None)(Argument 1 \<mapsto> VI32 (word_of_int (- 2147483648)), Argument 2 \<mapsto> VI32 (word_of_int (- 1)))"
      "- 2147483648" "- 1"]
  by (simp add: sample_context_def outerStackSizeOfInnermost_def valid_operand_def int_value_def
      in_signed_range_def INT_MIN_def)

subsection \<open>Signed remainder\<close>

lemma rem_s_emitted:
  assumes ty: "ty = i32 \<or> ty = i64"
    and st: "stack s = st @ [l, r]"
    and base: "outerStackSizeOfInnermost s \<le> length st" "length st < 2 ^ 62"
    and ib: "insertBlock s = Some b" "b < length (blockNames s)"
    and valid: "valid_operand s l" "valid_operand s r"
  defines "n \<equiv> numInsts s" and "B \<equiv> length (blockNames s)"
  shows "\<exists>s'. rem_s ty s = Some s' \<and> stack s' = st @ [Inst (n + 10)] \<and> insertBlock s' = Some (B + 3)
     \<and> blocks s' b = blocks s b @ [n, Suc n]
     \<and> blocks s' B = [Suc (Suc n), n + 3]
     \<and> blocks s' (Suc B) = [n + 4, n + 5, n + 6, n + 7]
     \<and> blocks s' (Suc (Suc B)) = [n + 8, n + 9]
     \<and> blocks s' (B + 3) = [n + 10]
     \<and> insts s' n = Some (llvmI1Type, ICmp ICMP_EQ r (typedZeroConstants ty))
     \<and> insts s' (Suc n) = Some (llvmVoidType, CondBr (Inst n) B (Suc B) likelyFalseBranchWeights)
     \<and> insts s' (Suc (Suc n)) = Some (llvmVoidType, CallIntrinsic ''divideByZeroOrIntegerOverflowTrap'' [] (getInnermostUnwindToBlock s))
     \<and> insts s' (n + 3) = Some (llvmVoidType, Unreachable)
     \<and> insts s' (n + 4) = Some (llvmI1Type, ICmp ICMP_NE l (literal_INT_MIN ty))
     \<and> insts s' (n + 5) = Some (llvmI1Type, ICmp ICMP_NE r (literal_minus1 ty))
     \<and> insts s' (n + 6) = Some (llvmI1Type, BinaryOperator Or (Inst (n + 4)) (Inst (n + 5)))
     \<and> insts s' (n + 7) = Some (llvmVoidType, CondBr (Inst (n + 6)) (Suc (Suc B)) (B + 3) likelyTrueBranchWeights)
     \<and> insts s' (n + 8) = Some (getType s l, BinaryOperator SRem l r)
     \<and> insts s' (n + 9) = Some (llvmVoidType, Br (B + 3))
     \<and> insts s' (n + 10) = Some (asLLVMType ty, PHI [(typedZeroConstants ty, Suc B), (Inst (n + 8), Suc (Suc B))])"
proof -
  have p1: "pop s = Some (r, s\<lparr>stack := st @ [l]\<rparr>)"
    using st base by (intro pop_snoc) auto
  have p2: "pop (s\<lparr>stack := st @ [l]\<rparr>) = Some (l, s\<lparr>stack := st\<rparr>)"
    using st base pop_snoc[of "s\<lparr>stack := st @ [l]\<rparr>" st l] by auto
  have neq: "\<And>k. l \<noteq> Inst (numInsts s + k)" "l \<noteq> Inst (numInsts s)" "l \<noteq> Inst (Suc (numInsts s))"
      "l \<noteq> Inst (Suc (Suc (numInsts s)))" "l \<noteq> Inst (Suc (Suc (Suc (numInsts s))))"
       "l \<noteq> Inst (Suc (Suc (Suc (Suc (Suc (Suc (Suc (numInsts s))))))))"
       "l \<noteq> Inst (Suc (Suc (Suc (Suc (Suc (Suc (numInsts s)))))))"
       "l \<noteq> Inst (Suc (Suc (Suc (Suc (Suc (numInsts s))))))"
       "l \<noteq> Inst (Suc (Suc (Suc (Suc (numInsts s)))))"
    using valid(1) by (auto simp: valid_operand_def)
  show ?thesis
    using ib ty neq
    by (auto simp add: rem_s_def i32_rem_s_def i64_rem_s_def EMIT_BINARY_OP_def p1 p2 emitSRem_def
        trapDivideByZero_def emit_simps push_def n_def B_def BasicBlock_Create_def CreateCondBr_def
        CreateBr_def CreatePHI_def addIncoming_def SetInsertPoint_def GetInsertBlock_def)
qed

text \<open>
  C4. For \<^verbatim>\<open>i32.rem_s\<close> and \<^verbatim>\<open>i64.rem_s\<close>: the emitted code first traps on a zero divisor;
  then, if the dividend is the least integer of the type and the divisor is \<open>-1\<close>, it yields
  0 through a \<open>\<phi>\<close>-node without executing the remainder instruction (the register of the
  \<^verbatim>\<open>srem\<close> is left as it was); for every other operand pair it yields the signed remainder
  (the sign of the dividend), through the same \<open>\<phi>\<close>-node.
\<close>

theorem rem_s_overflow_yields_zero:
  assumes ty: "ty = i32 \<or> ty = i64"
    and st: "stack s = st @ [l, r]"
    and base: "outerStackSizeOfInnermost s \<le> length st" "length st < 2 ^ 62"
    and ib: "insertBlock s = Some b" "b < length (blockNames s)"
    and valid: "valid_operand s l" "valid_operand s r"
    and ops: "operand \<rho> l = Some (int_value ty x)" "operand \<rho> r = Some (int_value ty y)"
    and range: "in_signed_range ty x" "in_signed_range ty y"
  shows "\<exists>s' p k blk zb nb. rem_s ty s = Some s' \<and> stack s' = st @ [Inst p]
     \<and> insertBlock s' = Some blk
     \<and> insts s' p = Some (asLLVMType ty, PHI [(typedZeroConstants ty, zb), (Inst k, nb)])
     \<and> insts s' k = Some (getType s l, BinaryOperator SRem l r) \<and>
     (\<forall>fuel prev h.
        (y = 0 \<longrightarrow>
           exec (Suc (Suc (Suc fuel))) s' prev b \<rho> h (emitted s s' b)
             = Trapped ''divideByZeroOrIntegerOverflowTrap'' []) \<and>
        (x = INT_MIN ty \<and> y = - 1 \<longrightarrow>
           (\<exists>\<rho>'. exec (Suc (Suc (Suc fuel))) s' prev b \<rho> h (emitted s s' b) = FellThrough blk \<rho>' h
              \<and> operand \<rho>' (Inst p) = Some (int_value ty 0)
              \<and> \<rho>' (Inst k) = \<rho> (Inst k))) \<and>
        (y \<noteq> 0 \<and> \<not> (x = INT_MIN ty \<and> y = - 1) \<longrightarrow>
           (\<exists>\<rho>'. exec (Suc (Suc (Suc fuel))) s' prev b \<rho> h (emitted s s' b) = FellThrough blk \<rho>' h
              \<and> operand \<rho>' (Inst p) = Some (int_value ty (x smod y)))))"
proof -
  define n where "n = numInsts s"
  define B where "B = length (blockNames s)"
  from rem_s_emitted[OF ty st base ib valid, folded n_def B_def]
  obtain s' where s': "rem_s ty s = Some s'" "stack s' = st @ [Inst (n + 10)]" "insertBlock s' = Some (B + 3)"
     "blocks s' b = blocks s b @ [n, Suc n]"
     "blocks s' B = [Suc (Suc n), n + 3]"
     "blocks s' (Suc B) = [n + 4, n + 5, n + 6, n + 7]"
     "blocks s' (Suc (Suc B)) = [n + 8, n + 9]"
     "blocks s' (B + 3) = [n + 10]"
     "insts s' n = Some (llvmI1Type, ICmp ICMP_EQ r (typedZeroConstants ty))"
     "insts s' (Suc n) = Some (llvmVoidType, CondBr (Inst n) B (Suc B) likelyFalseBranchWeights)"
     "insts s' (Suc (Suc n)) = Some (llvmVoidType, CallIntrinsic ''divideByZeroOrIntegerOverflowTrap'' [] (getInnermostUnwindToBlock s))"
     "insts s' (n + 3) = Some (llvmVoidType, Unreachable)"
     "insts s' (n + 4) = Some (llvmI1Type, ICmp ICMP_NE l (literal_INT_MIN ty))"
     "insts s' (n + 5) = Some (llvmI1Type, ICmp ICMP_NE r (literal_minus1 ty))"
     "insts s' (n + 6) = Some (llvmI1Type, BinaryOperator Or (Inst (n + 4)) (Inst (n + 5)))"
     "insts s' (n + 7) = Some (llvmVoidType, CondBr (Inst (n + 6)) (Suc (Suc B)) (B + 3) likelyTrueBranchWeights)"
     "insts s' (n + 8) = Some (getType s l, BinaryOperator SRem l r)"
     "insts s' (n + 9) = Some (llvmVoidType, Br (B + 3))"
     "insts s' (n + 10) = Some (asLLVMType ty, PHI [(typedZeroConstants ty, Suc B), (Inst (n + 8), Suc (Suc B))])"
    by auto
  have vl: "\<And>\<rho>' k v. operand (\<rho>'(Inst (n + k) \<mapsto> v)) l = operand \<rho>' l"
       "\<And>\<rho>' v. operand (\<rho>'(Inst n \<mapsto> v)) l = operand \<rho>' l"
       "\<And>\<rho>' k v. operand (\<rho>'(Inst (n + k) \<mapsto> v)) r = operand \<rho>' r"
       "\<And>\<rho>' v. operand (\<rho>'(Inst n \<mapsto> v)) r = operand \<rho>' r"
    using valid by (simp_all add: operand_upd_valid n_def)
  note sem = emitted_def eval_inst_def literal_INT_MIN_def literal_minus1_def
         emitLiteral_U32_def emitLiteral_U64_def eval_icmp_def icmp_result_def vl
         eval_binop_def bool_binop_def word_binop_def isNonReturningIntrinsic_def
         int_value_def INT_MIN_def in_signed_range_def word_of_int_eq_iff_sint
         sint_word_of_int_in_range word_srem_of_int
  show ?thesis
    apply (rule exI[of _ s'])
    apply (rule exI[of _ "n + 10"])
    apply (rule exI[of _ "n + 8"])
    apply (rule exI[of _ "B + 3"])
    apply (rule exI[of _ "Suc B"])
    apply (rule exI[of _ "Suc (Suc B)"])
    using ty
  proof (elim disjE)
    assume t: "ty = i32"
    show "rem_s ty s = Some s' \<and> stack s' = st @ [Inst (n + 10)]
     \<and> insertBlock s' = Some (B + 3)
     \<and> insts s' (n + 10) = Some (asLLVMType ty, PHI [(typedZeroConstants ty, Suc B), (Inst (n + 8), Suc (Suc B))])
     \<and> insts s' (n + 8) = Some (getType s l, BinaryOperator SRem l r) \<and>
     (\<forall>fuel prev h.
        (y = 0 \<longrightarrow>
           exec (Suc (Suc (Suc fuel))) s' prev b \<rho> h (emitted s s' b)
             = Trapped ''divideByZeroOrIntegerOverflowTrap'' []) \<and>
        (x = INT_MIN ty \<and> y = - 1 \<longrightarrow>
           (\<exists>\<rho>'. exec (Suc (Suc (Suc fuel))) s' prev b \<rho> h (emitted s s' b) = FellThrough (B + 3) \<rho>' h
              \<and> operand \<rho>' (Inst (n + 10)) = Some (int_value ty 0)
              \<and> \<rho>' (Inst (n + 8)) = \<rho> (Inst (n + 8)))) \<and>
        (y \<noteq> 0 \<and> \<not> (x = INT_MIN ty \<and> y = - 1) \<longrightarrow>
           (\<exists>\<rho>'. exec (Suc (Suc (Suc fuel))) s' prev b \<rho> h (emitted s s' b) = FellThrough (B + 3) \<rho>' h
              \<and> operand \<rho>' (Inst (n + 10)) = Some (int_value ty (x smod y)))))"
      using range[unfolded t] ops[unfolded t] ib(2)[folded B_def] unfolding t
      by (auto simp add: s'[unfolded t] sem)
  next
    assume t: "ty = i64"
    show "rem_s ty s = Some s' \<and> stack s' = st @ [Inst (n + 10)]
     \<and> insertBlock s' = Some (B + 3)
     \<and> insts s' (n + 10) = Some (asLLVMType ty, PHI [(typedZeroConstants ty, Suc B), (Inst (n + 8), Suc (Suc B))])
     \<and> insts s' (n + 8) = Some (getType s l, BinaryOperator SRem l r) \<and>
     (\<forall>fuel prev h.
        (y = 0 \<longrightarrow>
           exec (Suc (Suc (Suc fuel))) s' prev b \<rho> h (emitted s s' b)
             = Trapped ''divideByZeroOrIntegerOverflowTrap'' []) \<and>
        (x = INT_MIN ty \<and> y = - 1 \<longrightarrow>
           (\<exists>\<rho>'. exec (Suc (Suc (Suc fuel))) s' prev b \<rho> h (emitted s s' b) = FellThrough (B + 3) \<rho>' h
              \<and> operand \<rho>' (Inst (n + 10)) = Some (int_value ty 0)
              \<and> \<rho>' (Inst (n + 8)) = \<rho> (Inst (n + 8)))) \<and>
        (y \<noteq> 0 \<and> \<not> (x = INT_MIN ty \<and> y = - 1) \<longrightarrow>
           (\<exists>\<rho>'. exec (Suc (Suc (Suc fuel))) s' prev b \<rho> h (emitted s s' b) = FellThrough (B + 3) \<rho>' h
              \<and> operand \<rho>' (Inst (n + 10)) = Some (int_value ty (x smod y)))))"
      using range[unfolded t] ops[unfolded t] ib(2)[folded B_def] unfolding t
      by (auto simp add: s'[unfolded t] sem)
  qed
qed

theorem rem_s_overflow_yields_zero_witness:
  "\<exists>s' p k blk. rem_s i32 (sample_context [Argument 1, Argument 2]) = Some s' \<and> stack s' = [Inst p]
     \<and> insertBlock s' = Some blk
     \<and> (\<forall>fuel prev h. \<exists>\<rho>'.
          exec (Suc (Suc (Suc fuel))) s' prev 0
            ((\<lambda>v. None)(Argument 1 \<mapsto> VI32 (word_of_int (- 2147483648)), Argument 2 \<mapsto> VI32 (word_of_int (- 1))))
            h (emitted (sample_context [Argument 1, Argument 2]) s' 0)
          = FellThrough blk \<rho>' h \<and> operand \<rho>' (Inst p) = Some (VI32 0) \<and> \<rho>' (Inst k) = None)"
  using rem_s_overflow_yields_zero [of i32 "sample_context [Argument 1, Argument 2]" "[]"
      "Argument 1" "Argument 2" 0
      "(\<lambda>v. None)(Argument 1 \<mapsto> VI32 (word_of_int (- 2147483648)), Argument 2 \<mapsto> VI32 (word_of_int (- 1)))"
      "- 2147483648" "- 1"]
  by (simp add: sample_context_def outerStackSizeOfInnermost_def valid_operand_def int_value_def
      in_signed_range_def INT_MIN_def) blast

end
